theory Spec2Isabelle
  imports Main
begin

section \<open>Python strings\<close>

text \<open>
  Python's \<open>str\<close> is modelled as \<open>string\<close>. The few string methods the program
  uses are written out: \<open>strip\<close>, \<open>rstrip(chars)\<close>, \<open>startswith\<close>, the
  substring test \<open>p in s\<close>, \<open>split(sep, maxsplit)\<close> and \<open>rsplit(sep, maxsplit)\<close>
  (for a non-empty separator).
\<close>

definition is_space :: "char \<Rightarrow> bool" where
  "is_space c \<longleftrightarrow> c \<in> {CHR '' '', CHR 0x09, CHR 0x0A, CHR 0x0B, CHR 0x0C, CHR 0x0D}"

definition strip :: "string \<Rightarrow> string" where
  "strip s = rev (dropWhile is_space (rev (dropWhile is_space s)))"

definition rstrip_char :: "char \<Rightarrow> string \<Rightarrow> string" where
  "rstrip_char c s = rev (dropWhile (\<lambda>x. x = c) (rev s))"

fun startswith :: "string \<Rightarrow> string \<Rightarrow> bool" where
  "startswith s [] = True"
| "startswith [] (p # ps) = False"
| "startswith (c # cs) (p # ps) = (c = p \<and> startswith cs ps)"

fun str_in :: "string \<Rightarrow> string \<Rightarrow> bool" where
  "str_in p [] = (p = [])"
| "str_in p (c # cs) = (startswith (c # cs) p \<or> str_in p cs)"

fun split_first :: "string \<Rightarrow> string \<Rightarrow> (string \<times> string) option" where
  "split_first sep [] = None"
| "split_first sep (c # cs) =
     (if startswith (c # cs) sep then Some ([], drop (length sep) (c # cs))
      else map_option (\<lambda>(a, b). (c # a, b)) (split_first sep cs))"

fun py_split :: "nat \<Rightarrow> string \<Rightarrow> string \<Rightarrow> string list" where
  "py_split 0 sep s = [s]"
| "py_split (Suc n) sep s =
     (case split_first sep s of
        None \<Rightarrow> [s]
      | Some (a, b) \<Rightarrow> a # py_split n sep b)"

definition py_rsplit :: "nat \<Rightarrow> string \<Rightarrow> string \<Rightarrow> string list" where
  "py_rsplit n sep s = rev (map rev (py_split n (rev sep) (rev s)))"

section \<open>The outside world\<close>

text \<open>
  The program talks to git (through subprocesses), to the review service and to the
  file system. Every such call is an atomic primitive. What the outside answers is
  given by an oracle \<open>env\<close>, indexed by the number of events logged so far, so a
  theorem for all \<open>env\<close> covers every sequence of answers. The \<open>world\<close> holds the
  log of events and the state the properties below speak about.
\<close>

datatype exn =
    FetchConfigException
  | CopyFileException
  | CreateGroupException
  | KeyError
  | ValueError
  | RemoteError
  | Exception string

datatype cache_value = CBool bool | CStr string | CDict "(string \<times> string) list"

datatype event =
    Run "string list" int string
  | Sleep nat
  | ListProjects
  | CreateProject string bool
  | ListGroups "string list"
  | CreateGroup string bool
  | PathExists string bool
  | IsFile string bool
  | MakeDirs string
  | WriteFile string string
  | CopyFile string string
  | ReadGroupNames string "string list"
  | ReadYaml string
  | RestAddMembers string "string list"
  | RestAddInternalGroups string "string list"
  | RestAddIncludeGroup string string bool

record group_entry =
  ge_name :: "string option"
  ge_members :: "string list"
  ge_subgroups :: "string list"
  ge_ldap_groups :: "string list"

record working_copy =
  current_branch :: string
  branches :: "string list"

record env =
  proc_reply :: "nat \<Rightarrow> int \<times> string"
  groups_reply :: "nat \<Rightarrow> string list"
  remote_ok :: "nat \<Rightarrow> bool"
  path_reply :: "nat \<Rightarrow> bool"
  names_reply :: "nat \<Rightarrow> string list"
  yaml_reply :: "nat \<Rightarrow> group_entry list"

record world =
  trace :: "event list"
  repos :: "string \<Rightarrow> working_copy"
  gerrit_projects :: "string list"
  project_cache :: "string \<rightharpoonup> (string \<rightharpoonup> cache_value)"

definition log_event :: "event \<Rightarrow> world \<Rightarrow> world" where
  "log_event ev w = w\<lparr>trace := trace w @ [ev]\<rparr>"

definition new_events :: "world \<Rightarrow> world \<Rightarrow> event list" where
  "new_events w w' = drop (length (trace w)) (trace w')"

definition sleep :: "nat \<Rightarrow> world \<Rightarrow> world" where
  "sleep secs w = log_event (Sleep secs) w"

section \<open>utils.py\<close>

text \<open>
  \<open>run_command(cmd, status=True)\<close> starts the process, waits for it and returns
  its exit status with the stripped output. It raises nothing on a non-zero exit status.
\<close>

definition run_command_status :: "env \<Rightarrow> string list \<Rightarrow> world \<Rightarrow> (int \<times> string) \<times> world" where
  "run_command_status e cmd w =
     (let (returncode, out) = proc_reply e (length (trace w))
      in ((returncode, strip out), log_event (Run cmd returncode (strip out)) w))"

definition run_command :: "env \<Rightarrow> string list \<Rightarrow> world \<Rightarrow> string \<times> world" where
  "run_command e cmd w =
     (let ((returncode, out), w') = run_command_status e cmd w in (out, w'))"

definition path_join :: "string \<Rightarrow> string \<Rightarrow> string" where
  "path_join a b =
     (if startswith b ''/'' then b
      else if a = [] \<or> last a = CHR ''/'' then a @ b
      else a @ ''/'' @ b)"

definition git_argv :: "string \<Rightarrow> string list \<Rightarrow> string list" where
  "git_argv repo_dir sub_cmd =
     [''git'', ''--git-dir='' @ path_join repo_dir ''.git'', ''--work-tree='' @ repo_dir] @ sub_cmd"

text \<open>
  What a git sub-command that exits with status 0 does to the branches of the working
  copy. Only the branch pointer and the set of local branches are tracked.
\<close>

fun git_effect :: "string list \<Rightarrow> working_copy \<Rightarrow> working_copy" where
  "git_effect [c, b] wc =
     (if c = ''checkout'' then wc\<lparr>current_branch := b\<rparr> else wc)"
| "git_effect [c, f, b] wc =
     (if c = ''branch'' \<and> f = ''-D'' then wc\<lparr>branches := removeAll b (branches wc)\<rparr> else wc)"
| "git_effect [c, f, b, start] wc =
     (if c = ''checkout'' \<and> f = ''-B''
      then wc\<lparr>current_branch := b, branches := List.insert b (branches wc)\<rparr> else wc)"
| "git_effect sub_cmd wc = wc"

definition git_command_output :: "env \<Rightarrow> string \<Rightarrow> string list \<Rightarrow> world \<Rightarrow> (int \<times> string) \<times> world" where
  "git_command_output e repo_dir sub_cmd w =
     (let ((status, out), w') = run_command_status e (git_argv repo_dir sub_cmd) w
      in ((status, out),
          if status = 0
          then w'\<lparr>repos := (repos w')(repo_dir := git_effect sub_cmd (repos w' repo_dir))\<rparr>
          else w'))"

definition git_command :: "env \<Rightarrow> string \<Rightarrow> string list \<Rightarrow> world \<Rightarrow> int \<times> world" where
  "git_command e repo_dir sub_cmd w =
     (let ((status, out), w') = git_command_output e repo_dir sub_cmd w in (status, w'))"

definition dirname :: "string \<Rightarrow> string" where
  "dirname p =
     (let head = rev (dropWhile (\<lambda>c. c \<noteq> CHR ''/'') (rev p))
      in if head \<noteq> [] \<and> \<not> list_all (\<lambda>c. c = CHR ''/'') head
         then rstrip_char (CHR ''/'') head else head)"

definition path_exists :: "env \<Rightarrow> string \<Rightarrow> world \<Rightarrow> bool \<times> world" where
  "path_exists e p w =
     (let b = path_reply e (length (trace w)) in (b, log_event (PathExists p b) w))"

definition isfile :: "env \<Rightarrow> string \<Rightarrow> world \<Rightarrow> bool \<times> world" where
  "isfile e p w =
     (let b = path_reply e (length (trace w)) in (b, log_event (IsFile p b) w))"

definition fixup_path :: "bool \<Rightarrow> string \<Rightarrow> string" where
  "fixup_path is_windows path =
     (if is_windows then map (\<lambda>c. if c = CHR ''/'' then CHR 0x5C else c) path else path)"

fun str_nat :: "nat \<Rightarrow> string" where
  "str_nat n =
     (if n < 10 then [''0123456789'' ! n]
      else str_nat (n div 10) @ [''0123456789'' ! (n mod 10)])"

declare str_nat.simps [simp del]

definition str_int :: "int \<Rightarrow> string" where
  "str_int i = (if i < 0 then ''-'' @ str_nat (nat (- i)) else str_nat (nat i))"

section \<open>jeepyb_settings.py: the change cache of a project section\<close>

text \<open>
  \<open>JeepybProjectConfig.cache\<close> is \<open>project_cache.get(project_name, {})\<close>: the
  stored record when there is one (the constructor's \<open>setdefault\<close> makes one), else a
  fresh dictionary whose updates are lost.
\<close>

record project_config =
  project_name :: string
  repo_path :: string
  acl_config :: string
  sec_groups :: "string option"
  prolog_rule :: "string option"

definition JeepybProjectConfig_init :: "project_config \<Rightarrow> world \<Rightarrow> world" where
  "JeepybProjectConfig_init sec w =
     (case project_cache w (project_name sec) of
        None \<Rightarrow> w\<lparr>project_cache := (project_cache w)(project_name sec \<mapsto> Map.empty)\<rparr>
      | Some r \<Rightarrow> w)"

definition cache_get :: "project_config \<Rightarrow> string \<Rightarrow> world \<Rightarrow> cache_value option" where
  "cache_get sec k w =
     (case project_cache w (project_name sec) of None \<Rightarrow> None | Some r \<Rightarrow> r k)"

definition cache_set :: "project_config \<Rightarrow> string \<Rightarrow> cache_value \<Rightarrow> world \<Rightarrow> world" where
  "cache_set sec k v w =
     (case project_cache w (project_name sec) of
        None \<Rightarrow> w
      | Some r \<Rightarrow> w\<lparr>project_cache := (project_cache w)(project_name sec \<mapsto> r(k \<mapsto> v))\<rparr>)"

fun truthy :: "cache_value option \<Rightarrow> bool" where
  "truthy None = False"
| "truthy (Some (CBool b)) = b"
| "truthy (Some (CStr s)) = (s \<noteq> [])"
| "truthy (Some (CDict d)) = (d \<noteq> [])"

definition already_created :: "project_config \<Rightarrow> world \<Rightarrow> bool" where
  "already_created sec w = truthy (cache_get sec ''project-created'' w)"

section \<open>gerritapi.py: GerritAPI\<close>

definition GERRIT_SYSTEM_GROUPS :: "string \<rightharpoonup> string" where
  "GERRIT_SYSTEM_GROUPS = map_of
     [(''Anonymous Users'', ''global:Anonymous-Users''),
      (''Project Owners'', ''global:Project-Owners''),
      (''Registered Users'', ''global:Registered-Users''),
      (''Change Owner'', ''global:Change-Owner'')]"

definition GITREVIEW_TEMPLATE :: "string \<Rightarrow> string \<Rightarrow> string \<Rightarrow> string" where
  "GITREVIEW_TEMPLATE h p proj =
     ''[gerrit]'' @ [CHR 0x0A] @ ''host='' @ h @ [CHR 0x0A] @ ''port='' @ p @ [CHR 0x0A]
     @ ''project='' @ proj @ [CHR 0x0A]"

record gerrit_api =
  host :: string
  user :: string
  port :: int
  gitid :: string

definition projects :: "world \<Rightarrow> string list \<times> world" where
  "projects w = (gerrit_projects w, log_event ListProjects w)"

definition get_remote_url :: "gerrit_api \<Rightarrow> string \<Rightarrow> string" where
  "get_remote_url api project =
     ''ssh://'' @ user api @ ''@'' @ host api @ '':'' @ str_int (port api) @ ''/'' @ project"

text \<open>
  The client library's \<open>createProject\<close> and \<open>createGroup\<close> are remote calls: they
  either take effect and return, or raise and change nothing.
\<close>

datatype create_result = ReturnedFalse | ClientResult

definition createProject :: "env \<Rightarrow> string \<Rightarrow> world \<Rightarrow> (exn + create_result) \<times> world" where
  "createProject e name w =
     (if remote_ok e (length (trace w))
      then (Inr ClientResult,
            (log_event (CreateProject name True) w)\<lparr>gerrit_projects := gerrit_projects w @ [name]\<rparr>)
      else (Inl RemoteError, log_event (CreateProject name False) w))"

definition create_project :: "env \<Rightarrow> string \<Rightarrow> world \<Rightarrow> (exn + create_result) \<times> world" where
  "create_project e name w =
     (let (ps, w1) = projects w
      in if name \<in> set ps then (Inr ReturnedFalse, w1) else createProject e name w1)"

definition listGroups :: "env \<Rightarrow> world \<Rightarrow> string list \<times> world" where
  "listGroups e w =
     (let ls = groups_reply e (length (trace w)) in (ls, log_event (ListGroups ls) w))"

definition createGroup :: "env \<Rightarrow> string \<Rightarrow> world \<Rightarrow> (exn + unit) \<times> world" where
  "createGroup e name w =
     (if remote_ok e (length (trace w))
      then (Inr (), log_event (CreateGroup name True) w)
      else (Inl RemoteError, log_event (CreateGroup name False) w))"

definition group_column_names :: "string list" where
  "group_column_names = [''name'', ''uuid'', ''desc'', ''owner'', ''owner_uuid'', ''visible_to_all'']"

definition group_dict_of :: "string \<Rightarrow> (string \<rightharpoonup> string)" where
  "group_dict_of grp =
     map_of (zip group_column_names (py_split (length group_column_names) [CHR 0x09] grp))"

definition add_group :: "string \<Rightarrow> (string \<rightharpoonup> (string \<rightharpoonup> string)) \<Rightarrow> (string \<rightharpoonup> (string \<rightharpoonup> string))" where
  "add_group grp groups =
     (let group_dict = group_dict_of grp
      in case group_dict ''name'' of None \<Rightarrow> groups | Some n \<Rightarrow> groups(n \<mapsto> group_dict))"

definition parse_groups :: "string list \<Rightarrow> (string \<rightharpoonup> (string \<rightharpoonup> string))" where
  "parse_groups all_groups =
     (if length all_groups = 0 then Map.empty else fold add_group all_groups Map.empty)"

definition groups_dict :: "env \<Rightarrow> world \<Rightarrow> (string \<rightharpoonup> (string \<rightharpoonup> string)) \<times> world" where
  "groups_dict e w = (let (all_groups, w') = listGroups e w in (parse_groups all_groups, w'))"

fun add_include_groups :: "env \<Rightarrow> string \<Rightarrow> string list \<Rightarrow> world \<Rightarrow> (exn + unit) \<times> world" where
  "add_include_groups e grp [] w = (Inr (), w)"
| "add_include_groups e grp (current_group # rest) w =
     (if remote_ok e (length (trace w))
      then add_include_groups e grp rest (log_event (RestAddIncludeGroup grp current_group True) w)
      else (Inl RemoteError, log_event (RestAddIncludeGroup grp current_group False) w))"

definition create_group ::
  "env \<Rightarrow> string \<Rightarrow> string list \<Rightarrow> string list \<Rightarrow> string list \<Rightarrow> world \<Rightarrow> (exn + unit) \<times> world" where
  "create_group e name members subgroups ldap_groups w =
     (let (groups, w1) = groups_dict e w
      in case (if groups name = None then createGroup e name w1 else (Inr (), w1)) of
           (Inl x, w2) \<Rightarrow> (Inl x, w2)
         | (Inr u, w2) \<Rightarrow>
             (let w3 = (if members \<noteq> [] then log_event (RestAddMembers name members) w2 else w2);
                  w4 = (if subgroups \<noteq> [] then log_event (RestAddInternalGroups name subgroups) w3 else w3)
              in if ldap_groups \<noteq> [] then add_include_groups e name ldap_groups w4 else (Inr (), w4)))"

fun get_group_uuid_loop :: "env \<Rightarrow> string \<Rightarrow> nat \<Rightarrow> nat \<Rightarrow> world \<Rightarrow> (exn + string option) \<times> world" where
  "get_group_uuid_loop e grp retries 0 w = (Inr None, w)"
| "get_group_uuid_loop e grp retries (Suc n) w =
     (let (all_groups, w1) = groups_dict e w
      in case all_groups grp of
           Some d \<Rightarrow> (case d ''uuid'' of None \<Rightarrow> (Inl KeyError, w1) | Some u \<Rightarrow> (Inr (Some u), w1))
         | None \<Rightarrow> get_group_uuid_loop e grp retries n (if retries > 1 then sleep 1 w1 else w1))"

definition get_group_uuid :: "env \<Rightarrow> string \<Rightarrow> nat \<Rightarrow> world \<Rightarrow> (exn + string option) \<times> world" where
  "get_group_uuid e grp retries w = get_group_uuid_loop e grp retries retries w"

fun truthy_str :: "string option \<Rightarrow> bool" where
  "truthy_str None = False"
| "truthy_str (Some s) = (s \<noteq> [])"

definition group_uuid :: "env \<Rightarrow> string \<Rightarrow> world \<Rightarrow> (exn + string option) \<times> world" where
  "group_uuid e group_name w =
     (case get_group_uuid e group_name 1 w of
        (Inl x, w1) \<Rightarrow> (Inl x, w1)
      | (Inr uuid, w1) \<Rightarrow>
          if truthy_str uuid then (Inr uuid, w1)
          else (case GERRIT_SYSTEM_GROUPS group_name of
                  Some s \<Rightarrow> (Inr (Some s), w1)
                | None \<Rightarrow>
                    (case create_group e group_name [] [] [] w1 of
                       (Inl x, w2) \<Rightarrow> (Inl x, w2)
                     | (Inr u, w2) \<Rightarrow>
                         (case get_group_uuid e group_name 10 w2 of
                            (Inl x, w3) \<Rightarrow> (Inl x, w3)
                          | (Inr uuid', w3) \<Rightarrow>
                              if truthy_str uuid' then (Inr uuid', w3) else (Inr None, w3)))))"

section \<open>gerritapi.py: GerritMetaUpdater\<close>

record meta_updater =
  mu_project :: string
  mu_remote_url :: string
  mu_checkout_path :: string
  mu_gerrit_api :: gerrit_api
  current_head :: string

definition GerritMetaUpdater :: "string \<Rightarrow> string \<Rightarrow> string \<Rightarrow> gerrit_api \<Rightarrow> meta_updater" where
  "GerritMetaUpdater project remote_url checkout_path api =
     \<lparr>mu_project = project, mu_remote_url = remote_url, mu_checkout_path = checkout_path,
      mu_gerrit_api = api, current_head = ''master''\<rparr>"

definition meta_updater :: "gerrit_api \<Rightarrow> string \<Rightarrow> string \<Rightarrow> meta_updater" where
  "meta_updater api project checkout_path =
     GerritMetaUpdater project (get_remote_url api project) checkout_path api"

definition fetch_cmd :: "meta_updater \<Rightarrow> string list" where
  "fetch_cmd self = [''fetch'', mu_remote_url self, ''+refs/meta/config:refs/remotes/gerrit-meta/config'']"

definition update_cmd :: "string list" where
  "update_cmd = [''remote'', ''update'', ''--prune'']"

definition ls_files_cmd :: "string list" where
  "ls_files_cmd = [''ls-files'', ''--with-tree=remotes/gerrit-meta/config'', ''project.config'']"

definition checkout_config_cmd :: "string list" where
  "checkout_config_cmd = [''checkout'', ''-B'', ''config'', ''remotes/gerrit-meta/config'']"

text \<open>The two polling loops of \<open>fetch_meta_config\<close>; \<open>False\<close> is the \<open>else\<close> of the
  \<open>for\<close>: all attempts used up.\<close>

fun fetch_poll :: "env \<Rightarrow> meta_updater \<Rightarrow> nat \<Rightarrow> world \<Rightarrow> bool \<times> world" where
  "fetch_poll e self 0 w = (False, w)"
| "fetch_poll e self (Suc n) w =
     (let (status, w1) = git_command e (mu_checkout_path self) (fetch_cmd self) w
      in if status = 0 then (True, w1) else fetch_poll e self n (sleep 2 w1))"

fun config_poll :: "env \<Rightarrow> meta_updater \<Rightarrow> nat \<Rightarrow> world \<Rightarrow> bool \<times> world" where
  "config_poll e self 0 w = (False, w)"
| "config_poll e self (Suc n) w =
     (let (status, w1) = git_command e (mu_checkout_path self) update_cmd w
      in if status \<noteq> 0 then config_poll e self n (sleep 2 w1)
         else (let ((status, output), w2) = git_command_output e (mu_checkout_path self) ls_files_cmd w1
               in if \<not> str_in ''project.config'' (strip output) \<or> status \<noteq> 0
                  then config_poll e self n (sleep 2 w2)
                  else (True, w2)))"

definition fetch_meta_config :: "env \<Rightarrow> meta_updater \<Rightarrow> world \<Rightarrow> (exn + unit) \<times> world" where
  "fetch_meta_config e self w =
     (case fetch_poll e self 10 w of
        (False, w1) \<Rightarrow> (Inl FetchConfigException, w1)
      | (True, w1) \<Rightarrow>
          (case config_poll e self 10 w1 of
             (False, w2) \<Rightarrow> (Inl FetchConfigException, w2)
           | (True, w2) \<Rightarrow>
               (let (status, w3) = git_command e (mu_checkout_path self) checkout_config_cmd w2
                in if status \<noteq> 0 then (Inl FetchConfigException, w3) else (Inr (), w3))))"

definition commit_cmd :: "string \<Rightarrow> string \<Rightarrow> string list" where
  "commit_cmd message author =
     [''commit'', ''-a'', ''-m '' @ [CHR 0x22] @ message @ [CHR 0x22],
      ''--author='' @ [CHR 0x22] @ author @ [CHR 0x22]]"

definition push_meta_config :: "env \<Rightarrow> meta_updater \<Rightarrow> world \<Rightarrow> bool option \<times> world" where
  "push_meta_config e self w =
     (let (status, w1) = git_command e (mu_checkout_path self) [''diff-index'', ''--quiet'', ''HEAD'', ''--''] w
      in if status = 0 then (None, w1)
         else (let (status, w2) = git_command e (mu_checkout_path self)
                       (commit_cmd ''Update project config.'' (gitid (mu_gerrit_api self))) w1
               in if status \<noteq> 0 then (Some False, w2)
                  else (let (status, w3) = git_command e (mu_checkout_path self)
                                [''push'', mu_remote_url self, ''HEAD:refs/meta/config''] w2
                        in if status \<noteq> 0 then (Some False, w3) else (Some True, w3))))"

definition meta_enter :: "env \<Rightarrow> meta_updater \<Rightarrow> world \<Rightarrow> (exn + meta_updater) \<times> world" where
  "meta_enter e self w =
     (let ((st, out), w1) = git_command_output e (mu_checkout_path self) [''rev-parse'', ''--abbrev-ref'', ''HEAD''] w;
          self' = (if st = 0 \<and> out \<noteq> [] then self\<lparr>current_head := out\<rparr> else self)
      in case fetch_meta_config e self' w1 of
           (Inl x, w2) \<Rightarrow> (Inl x, w2)
         | (Inr u, w2) \<Rightarrow> (Inr self', w2))"

definition meta_exit :: "env \<Rightarrow> meta_updater \<Rightarrow> exn option \<Rightarrow> world \<Rightarrow> bool \<times> world" where
  "meta_exit e self exc w =
     (let (pushed, w1) = push_meta_config e self w;
          (s1, w2) = git_command e (mu_checkout_path self) [''reset'', ''--hard''] w1;
          (s2, w3) = git_command e (mu_checkout_path self) [''checkout'', current_head self] w2;
          (s3, w4) = git_command e (mu_checkout_path self) [''branch'', ''-D'', ''config''] w3
      in (True, w4))"

text \<open>
  The \<open>with\<close> statement over a \<open>GerritMetaUpdater\<close>: an exception of \<open>__enter__\<close>
  propagates and \<open>__exit__\<close> is not called; otherwise \<open>__exit__\<close> runs after the body,
  whether it returned or raised, and its result says whether a raised exception is
  suppressed.
\<close>

definition with_meta_updater ::
  "env \<Rightarrow> meta_updater \<Rightarrow> (world \<Rightarrow> (exn + 'a) \<times> world) \<Rightarrow> world \<Rightarrow> (exn + unit) \<times> world" where
  "with_meta_updater e mu body w =
     (case meta_enter e mu w of
        (Inl x, w1) \<Rightarrow> (Inl x, w1)
      | (Inr self, w1) \<Rightarrow>
          (case body w1 of
             (Inl x, w2) \<Rightarrow>
               (let (suppress, w3) = meta_exit e self (Some x) w2
                in if suppress then (Inr (), w3) else (Inl x, w3))
           | (Inr r, w2) \<Rightarrow>
               (let (suppress, w3) = meta_exit e self None w2 in (Inr (), w3))))"

section \<open>gerritapi.py: GerritCheckout\<close>

record checkout =
  co_project :: string
  co_checkout_path :: string
  co_upstream :: "string option"
  co_gerrit_api :: gerrit_api
  co_remote_url :: string
  project_git :: string

definition GerritCheckout :: "string \<Rightarrow> string \<Rightarrow> string option \<Rightarrow> gerrit_api \<Rightarrow> checkout" where
  "GerritCheckout project checkout_path upstream api =
     \<lparr>co_project = project, co_checkout_path = checkout_path, co_upstream = upstream,
      co_gerrit_api = api, co_remote_url = get_remote_url api project,
      project_git = project @ ''.git''\<rparr>"

definition change_user :: "env \<Rightarrow> checkout \<Rightarrow> world \<Rightarrow> (exn + unit) \<times> world" where
  "change_user e self w =
     (case py_rsplit 2 '' <'' (gitid (co_gerrit_api self)) of
        [name, email] \<Rightarrow>
          (let email' = rstrip_char (CHR ''>'') email;
               (s1, w1) = git_command e (co_checkout_path self) [''config'', ''user.name'', name] w;
               (s2, w2) = git_command e (co_checkout_path self) [''config'', ''user.email'', email'] w1
           in (Inr (), w2))
      | _ \<Rightarrow> (Inl ValueError, w))"

definition clone_from_gerrit :: "env \<Rightarrow> checkout \<Rightarrow> world \<Rightarrow> (exn + unit) \<times> world" where
  "clone_from_gerrit e self w =
     (let (out, w1) = run_command e [''git'', ''clone'', co_remote_url self, co_checkout_path self] w;
          w2 = (case co_upstream self of
                  None \<Rightarrow> w1
                | Some u \<Rightarrow>
                    if u \<noteq> []
                    then snd (git_command e (co_checkout_path self) [''remote'', ''add'', ''-f'', ''upstream'', u] w1)
                    else w1)
      in change_user e self w2)"

definition import_upstream :: "env \<Rightarrow> checkout \<Rightarrow> string \<Rightarrow> world \<Rightarrow> (exn + string option) \<times> world" where
  "import_upstream e self u w =
     (let (out, w1) = run_command e [''git'', ''clone'', u, co_checkout_path self] w;
          (s1, w2) = git_command e (co_checkout_path self) [''fetch'', ''origin'', ''+refs/heads/*:refs/copy/heads/*''] w1;
          (s2, w3) = git_command e (co_checkout_path self) [''remote'', ''rename'', ''origin'', ''upstream''] w2;
          (s3, w4) = git_command e (co_checkout_path self) [''remote'', ''add'', ''origin'', co_remote_url self] w3
      in case change_user e self w4 of
           (Inl x, w5) \<Rightarrow> (Inl x, w5)
         | (Inr r, w5) \<Rightarrow> (Inr (Some ''push %s +refs/copy/heads/*:refs/heads/*''), w5))"

definition fresh_init :: "env \<Rightarrow> checkout \<Rightarrow> world \<Rightarrow> (exn + string option) \<times> world" where
  "fresh_init e self w =
     (let (out, w1) = run_command e [''git'', ''init'', co_checkout_path self] w
      in case change_user e self w1 of
           (Inl x, w2) \<Rightarrow> (Inl x, w2)
         | (Inr r, w2) \<Rightarrow>
             (let (s1, w3) = git_command e (co_checkout_path self) [''remote'', ''add'', ''origin'', co_remote_url self] w2;
                  w4 = log_event (WriteFile (path_join (co_checkout_path self) ''.gitreview'')
                         (GITREVIEW_TEMPLATE (host (co_gerrit_api self)) (str_int (port (co_gerrit_api self)))
                            (project_git self))) w3;
                  (s2, w5) = git_command e (co_checkout_path self) [''add'', ''.gitreview''] w4;
                  (s3, w6) = git_command e (co_checkout_path self)
                               (commit_cmd ''Added .gitreview'' (gitid (co_gerrit_api self))) w5
              in (Inr (Some ''push %s HEAD:refs/heads/master''), w6)))"

text \<open>
  \<open>make_local_copy\<close>. The three strategies are the three definitions above, in the order
  of the source; the \<open>try\<close> around the first one passes over any exception raised in it.
\<close>

definition make_local_copy :: "env \<Rightarrow> checkout \<Rightarrow> world \<Rightarrow> (exn + string option) \<times> world" where
  "make_local_copy e self w =
     (let (ex, w0) = path_exists e (dirname (co_checkout_path self)) w;
          w1 = (if \<not> ex then log_event (MakeDirs (dirname (co_checkout_path self))) w0 else w0);
          (ps, w2) = projects w1;
          (returned, w3) =
             (if co_project self \<in> set ps
              then (case clone_from_gerrit e self w2 of
                      (Inr r, w') \<Rightarrow> (True, w')
                    | (Inl x, w') \<Rightarrow> (False, w'))
              else (False, w2))
      in if returned then (Inr None, w3)
         else (case co_upstream self of
                 None \<Rightarrow> fresh_init e self w3
               | Some u \<Rightarrow> if u \<noteq> [] then import_upstream e self u w3 else fresh_init e self w3))"

definition fsck_repo :: "env \<Rightarrow> checkout \<Rightarrow> world \<Rightarrow> (exn + unit) \<times> world" where
  "fsck_repo e self w =
     (let ((rc, out), w') = git_command_output e (co_checkout_path self) [''fsck'', ''--full''] w
      in if rc \<noteq> 0 \<or> str_in ''zeroPaddedFilemode'' out
         then (Inl (Exception ''git fsck failed not importing''), w')
         else (Inr (), w'))"

section \<open>manage_projects.py\<close>

definition copy_file_to_git_repo ::
  "env \<Rightarrow> string \<Rightarrow> string \<Rightarrow> string \<Rightarrow> world \<Rightarrow> (exn + bool) \<times> world" where
  "copy_file_to_git_repo e repo copy_file dest_filename w =
     (let (ex, w1) = path_exists e copy_file w
      in if \<not> ex then (Inl CopyFileException, w1)
         else (let w2 = log_event (CopyFile copy_file (path_join repo dest_filename)) w1;
                   (s1, w3) = git_command e repo [''add'', dest_filename] w2;
                   (status, w4) = git_command e repo [''diff-index'', ''--quiet'', ''HEAD'', ''--''] w3
               in (Inr (status \<noteq> 0), w4)))"

text \<open>
  \<open>create_groups_file\<close> reads \<open>project.config\<close> and takes from every line that
  matches its regular expression the group name. The file system answers with these
  names in line order (\<open>names_reply\<close>); the loop over them is the source's.
\<close>

fun resolve_groups ::
  "env \<Rightarrow> string list \<Rightarrow> (string \<times> string) list \<Rightarrow> world \<Rightarrow> (exn + (string \<times> string) list) \<times> world" where
  "resolve_groups e [] uuids w = (Inr uuids, w)"
| "resolve_groups e (grp # rest) uuids w =
     (if grp \<in> fst ` set uuids then resolve_groups e rest uuids w
      else (case group_uuid e grp w of
              (Inl x, w1) \<Rightarrow> (Inl x, w1)
            | (Inr None, w1) \<Rightarrow> (Inl CreateGroupException, w1)
            | (Inr (Some uuid), w1) \<Rightarrow>
                if uuid \<noteq> [] then resolve_groups e rest (uuids @ [(grp, uuid)]) w1
                else (Inl CreateGroupException, w1)))"

definition create_groups_file :: "env \<Rightarrow> string \<Rightarrow> string \<Rightarrow> world \<Rightarrow> (exn + unit) \<times> world" where
  "create_groups_file e project repo w =
     (let acl_file = path_join repo ''project.config'';
          group_file = path_join repo ''groups'';
          names = names_reply e (length (trace w));
          w1 = log_event (ReadGroupNames acl_file names) w
      in case resolve_groups e names [] w1 of
           (Inl x, w2) \<Rightarrow> (Inl x, w2)
         | (Inr uuids, w2) \<Rightarrow>
             if uuids \<noteq> []
             then (let w3 = log_event (WriteFile group_file
                               (concat (map (\<lambda>(grp, uuid). uuid @ [CHR 0x09] @ grp @ [CHR 0x0A]) uuids))) w2;
                       (status, w4) = git_command e repo [''add'', ''groups''] w3
                   in if status \<noteq> 0 then (Inl CreateGroupException, w4) else (Inr (), w4))
             else (Inr (), w2))"

definition acl_body :: "env \<Rightarrow> string \<Rightarrow> project_config \<Rightarrow> world \<Rightarrow> (exn + unit) \<times> world" where
  "acl_body e acl_path sec w =
     (case copy_file_to_git_repo e (repo_path sec) acl_path ''project.config'' w of
        (Inl x, w1) \<Rightarrow> (Inl x, w1)
      | (Inr dirty_repo, w1) \<Rightarrow>
          if \<not> dirty_repo then (Inr (), w1)
          else create_groups_file e (project_name sec) (repo_path sec) w1)"

definition process_acls ::
  "env \<Rightarrow> string \<Rightarrow> project_config \<Rightarrow> gerrit_api \<Rightarrow> world \<Rightarrow> (exn + unit) \<times> world" where
  "process_acls e acl_path sec api w =
     (let (is_file, w1) = isfile e acl_path w
      in if \<not> is_file then (Inr (), w1)
         else with_meta_updater e (meta_updater api (project_name sec) (repo_path sec))
                (acl_body e acl_path sec) w1)"

definition process_prolog_rules ::
  "env \<Rightarrow> string \<Rightarrow> project_config \<Rightarrow> gerrit_api \<Rightarrow> world \<Rightarrow> (exn + unit) \<times> world" where
  "process_prolog_rules e prolog_path sec api w =
     (let (is_file, w1) = isfile e prolog_path w
      in if \<not> is_file then (Inr (), w1)
         else with_meta_updater e (meta_updater api (project_name sec) (repo_path sec))
                (copy_file_to_git_repo e (repo_path sec) prolog_path ''rules.pl'') w1)"

fun create_groups_loop :: "env \<Rightarrow> group_entry list \<Rightarrow> world \<Rightarrow> (exn + unit) \<times> world" where
  "create_groups_loop e [] w = (Inr (), w)"
| "create_groups_loop e (g # rest) w =
     (let ldap_groups = (if length (ge_ldap_groups g) \<noteq> 0
                         then map (\<lambda>x. ''ldap:'' @ x) (ge_ldap_groups g) else ge_ldap_groups g)
      in case ge_name g of
           None \<Rightarrow> (Inl KeyError, w)
         | Some name \<Rightarrow>
             (case create_group e name (ge_members g) (ge_subgroups g) ldap_groups w of
                (Inl x, w1) \<Rightarrow> (Inl x, w1)
              | (Inr u, w1) \<Rightarrow> create_groups_loop e rest w1))"

definition create_groups :: "env \<Rightarrow> string \<Rightarrow> world \<Rightarrow> (exn + unit) \<times> world" where
  "create_groups e group_config w =
     (let (is_file, w1) = isfile e group_config w
      in if \<not> is_file then (Inr (), w1)
         else (let yaml_groups = yaml_reply e (length (trace w1));
                   w2 = log_event (ReadYaml group_config) w1
               in create_groups_loop e yaml_groups w2))"

definition create_gerrit_project :: "env \<Rightarrow> project_config \<Rightarrow> world \<Rightarrow> (exn + bool) \<times> world" where
  "create_gerrit_project e sec w =
     (let (ps, w1) = projects w
      in if project_name sec \<in> set ps
         then (Inr False, cache_set sec ''project-created'' (CBool True) w1)
         else (case create_project e (project_name sec) w1 of
                 (Inr r, w2) \<Rightarrow> (Inr True, cache_set sec ''project-created'' (CBool True) w2)
               | (Inl x, w2) \<Rightarrow> (Inl x, cache_set sec ''project-created'' (CBool False) w2)))"

subsection \<open>The body of the loop of \<open>main\<close>, step by step\<close>

text \<open>
  "Create the project if not already created": the result \<open>False\<close> is the
  \<open>continue\<close> that leaves the project for this run.
\<close>

definition main_create_project :: "env \<Rightarrow> project_config \<Rightarrow> world \<Rightarrow> bool \<times> world" where
  "main_create_project e sec w =
     (if \<not> already_created sec w
      then (case create_gerrit_project e sec w of
              (Inr r, w1) \<Rightarrow> (True, cache_set sec ''project-created'' (CBool True) w1)
            | (Inl x, w1) \<Rightarrow> (False, cache_set sec ''project-created'' (CBool False) w1))
      else (True, w))"

text \<open>
  "Process ACL Configuration", "Process Groups" and "Process Prolog Rules". The hash
  indexes \<open>acl_cache\<close>, \<open>group_cache\<close> and \<open>prolog_cache\<close> of
  \<open>generate_sha_for_dir\<close> are association lists from file name to digest, in the order
  in which the dictionary is iterated.
\<close>

definition index_matching :: "string \<Rightarrow> (string \<times> string) list \<Rightarrow> (string \<times> string) list" where
  "index_matching name idx = filter (\<lambda>(k, v). str_in name k) idx"

fun main_acl_loop ::
  "env \<Rightarrow> project_config \<Rightarrow> gerrit_api \<Rightarrow> (string \<times> string) list \<Rightarrow> world \<Rightarrow> (exn + unit) \<times> world" where
  "main_acl_loop e sec api [] w = (Inr (), w)"
| "main_acl_loop e sec api ((name, sha) # rest) w =
     (if cache_get sec ''acl-sha'' w \<noteq> Some (CStr sha)
      then (case process_acls e name sec api w of
              (Inl x, w1) \<Rightarrow> (Inl x, w1)
            | (Inr u, w1) \<Rightarrow> main_acl_loop e sec api rest (cache_set sec ''acl-sha'' (CStr sha) w1))
      else main_acl_loop e sec api rest w)"

definition main_process_acl ::
  "env \<Rightarrow> bool \<Rightarrow> (string \<times> string) list \<Rightarrow> project_config \<Rightarrow> gerrit_api \<Rightarrow> world \<Rightarrow> (exn + unit) \<times> world" where
  "main_process_acl e is_windows acl_cache sec api w =
     (if acl_config sec \<noteq> []
      then main_acl_loop e sec api (index_matching (fixup_path is_windows (acl_config sec)) acl_cache) w
      else (Inr (), w))"

fun main_groups_loop ::
  "env \<Rightarrow> project_config \<Rightarrow> (string \<times> string) list \<Rightarrow> (string \<times> string) list \<Rightarrow> world \<Rightarrow> (exn + unit) \<times> world" where
  "main_groups_loop e sec group_sha [] w = (Inr (), w)"
| "main_groups_loop e sec group_sha ((name, sha) # rest) w =
     (if cache_get sec ''groups-sha'' w = Some (CStr sha)
      then main_groups_loop e sec group_sha rest w
      else (case create_groups e name w of
              (Inl x, w1) \<Rightarrow> (Inl x, w1)
            | (Inr u, w1) \<Rightarrow>
                main_groups_loop e sec group_sha rest (cache_set sec ''groups-sha'' (CDict group_sha) w1)))"

definition main_process_groups ::
  "env \<Rightarrow> bool \<Rightarrow> (string \<times> string) list \<Rightarrow> project_config \<Rightarrow> world \<Rightarrow> (exn + unit) \<times> world" where
  "main_process_groups e is_windows group_cache sec w =
     (case sec_groups sec of
        None \<Rightarrow> (Inr (), w)
      | Some g \<Rightarrow>
          if g \<noteq> []
          then (let group_sha = index_matching (fixup_path is_windows g) group_cache
                in main_groups_loop e sec group_sha group_sha w)
          else (Inr (), w))"

fun main_prolog_loop ::
  "env \<Rightarrow> project_config \<Rightarrow> gerrit_api \<Rightarrow> (string \<times> string) list \<Rightarrow> world \<Rightarrow> (exn + unit) \<times> world" where
  "main_prolog_loop e sec api [] w = (Inr (), w)"
| "main_prolog_loop e sec api ((name, sha) # rest) w =
     (if cache_get sec ''prolog-sha'' w = Some (CStr sha)
      then main_prolog_loop e sec api rest w
      else (case process_prolog_rules e name sec api w of
              (Inl x, w1) \<Rightarrow> (Inl x, w1)
            | (Inr u, w1) \<Rightarrow> main_prolog_loop e sec api rest (cache_set sec ''prolog-sha'' (CStr sha) w1)))"

definition main_process_prolog ::
  "env \<Rightarrow> bool \<Rightarrow> (string \<times> string) list \<Rightarrow> project_config \<Rightarrow> gerrit_api \<Rightarrow> world \<Rightarrow> (exn + unit) \<times> world" where
  "main_process_prolog e is_windows prolog_cache sec api w =
     (case prolog_rule sec of
        None \<Rightarrow> (Inr (), w)
      | Some r \<Rightarrow>
          if r \<noteq> []
          then main_prolog_loop e sec api (index_matching (fixup_path is_windows r) prolog_cache) w
          else (Inr (), w))"

section \<open>Observations on the event log\<close>

text \<open>
  The results of the runs of one command line, the sleeps and the group listings among
  a list of events, each in the order of the log.
\<close>

fun runs_of :: "string list \<Rightarrow> event list \<Rightarrow> (int \<times> string) list" where
  "runs_of argv [] = []"
| "runs_of argv (Run cmd st out # t) =
     (if cmd = argv then (st, out) # runs_of argv t else runs_of argv t)"
| "runs_of argv (ev # t) = runs_of argv t"

fun sleeps :: "event list \<Rightarrow> nat list" where
  "sleeps [] = []"
| "sleeps (Sleep n # t) = n # sleeps t"
| "sleeps (ev # t) = sleeps t"

fun listings :: "event list \<Rightarrow> string list list" where
  "listings [] = []"
| "listings (ListGroups ls # t) = ls # listings t"
| "listings (ev # t) = listings t"

definition failed :: "(int \<times> string) list \<Rightarrow> (int \<times> string) list" where
  "failed rs = filter (\<lambda>r. fst r \<noteq> 0) rs"

text \<open>An \<open>ls-files\<close> run that shows \<open>project.config\<close> in the fetched tree.\<close>

definition probe_ok :: "int \<times> string \<Rightarrow> bool" where
  "probe_ok r = (fst r = 0 \<and> str_in ''project.config'' (strip (snd r)))"

text \<open>One lookup of a group in one listing, as \<open>_get_group_uuid\<close> does it.\<close>

definition lookup_uuid :: "string list \<Rightarrow> string \<Rightarrow> exn + string option" where
  "lookup_uuid ls grp =
     (case parse_groups ls grp of
        None \<Rightarrow> Inr None
      | Some d \<Rightarrow> (case d ''uuid'' of None \<Rightarrow> Inl KeyError | Some u \<Rightarrow> Inr (Some u)))"

text \<open>The identifier a lookup yields, if it yields one that is not empty.\<close>

definition usable_uuid :: "string list \<Rightarrow> string \<Rightarrow> string option" where
  "usable_uuid ls grp =
     (case lookup_uuid ls grp of
        Inr (Some u) \<Rightarrow> if u \<noteq> [] then Some u else None
      | _ \<Rightarrow> None)"

text \<open>The last step of \<open>group_uuid\<close>, after the group was created: the lookups with
  up to 10 attempts, and the test of the identifier found.\<close>

definition poll_after_create :: "env \<Rightarrow> string \<Rightarrow> world \<Rightarrow> (exn + string option) \<times> world" where
  "poll_after_create e g w2 =
     (case get_group_uuid e g 10 w2 of
        (Inl x, w3) \<Rightarrow> (Inl x, w3)
      | (Inr uuid', w3) \<Rightarrow> if truthy_str uuid' then (Inr uuid', w3) else (Inr None, w3))"

section \<open>Sample inputs\<close>

text \<open>
  Concrete inputs at which the theorems below are instantiated: one project \<open>org/p\<close>
  with its working copy, a review service with and without the project, and several
  answers of the outside world (everything succeeds; the clean-up commands fail; nothing
  is reachable; the integrity check warns at exit status 0; the clone from the review
  service fails; the push of the metadata fails; the creation of the project fails).
\<close>
definition api0 :: gerrit_api where
  "api0 = \<lparr>host = ''review.example.org'', user = ''jeepyb'', port = 29418,
           gitid = ''Project Creator <infra@example.org>''\<rparr>"

definition world0 :: world where
  "world0 = \<lparr>trace = [], repos = (\<lambda>p. \<lparr>current_branch = ''master'', branches = [''master'']\<rparr>),
         gerrit_projects = [], project_cache = Map.empty\<rparr>"

definition sec0 :: project_config where
  "sec0 = \<lparr>project_name = ''org/p'', repo_path = ''/cache/org/p'',
           acl_config = ''acls/org/p.config'', sec_groups = Some ''org/p.yaml'',
           prolog_rule = None\<rparr>"

definition env_push_fails :: env where
  "env_push_fails =
     \<lparr>proc_reply = (\<lambda>n. if n = 1 then (0, ''master'') else if n = 4 then (0, ''project.config'')
                         else if n = 9 \<or> n = 11 \<or> n = 13 then (1, []) else (0, [])),
      groups_reply = (\<lambda>n. []), remote_ok = (\<lambda>n. True), path_reply = (\<lambda>n. True),
      names_reply = (\<lambda>n. []), yaml_reply = (\<lambda>n. [])\<rparr>"

definition acl_index0 :: "(string \<times> string) list" where
  "acl_index0 = [(''/cfg/acls/org/p.config'', ''abc'')]"

definition world1 :: world where
  "world1 = JeepybProjectConfig_init sec0 world0"

definition mu0 :: meta_updater where
  "mu0 = meta_updater api0 ''org/p'' ''/cache/org/p''"

definition co0 :: checkout where
  "co0 = GerritCheckout ''org/p'' ''/cache/org/p'' None api0"

definition co_upstream0 :: checkout where
  "co_upstream0 = GerritCheckout ''org/p'' ''/cache/org/p'' (Some ''https://up/p.git'') api0"

definition w_listed :: world where
  "w_listed = world0\<lparr>gerrit_projects := [''org/p'']\<rparr>"

definition idle_body :: "world \<Rightarrow> (exn + unit) \<times> world" where
  "idle_body w = (Inr (), w)"

definition env_all_ok :: env where
  "env_all_ok =
     \<lparr>proc_reply = (\<lambda>n. if n = 0 then (0, ''master'') else (0, ''project.config'')),
      groups_reply = (\<lambda>n. [''devs'' @ [CHR 0x09] @ ''uuid-1'']), remote_ok = (\<lambda>n. True),
      path_reply = (\<lambda>n. True), names_reply = (\<lambda>n. []),
      yaml_reply = (\<lambda>n. [\<lparr>ge_name = Some ''devs'', ge_members = [''a@x.org''],
                           ge_subgroups = [], ge_ldap_groups = []\<rparr>])\<rparr>"

definition env_cleanup_fails :: env where
  "env_cleanup_fails =
     env_all_ok\<lparr>proc_reply := (\<lambda>n. if n = 0 then (0, ''master'')
                                    else if n = 3 then (0, ''project.config'')
                                    else if n = 7 \<or> n = 8 then (1, ''error'') else (0, []))\<rparr>"

definition env_unreachable :: env where
  "env_unreachable = env_all_ok\<lparr>proc_reply := (\<lambda>n. (1, ''fatal'')), remote_ok := (\<lambda>n. False)\<rparr>"

definition env_zero_padded :: env where
  "env_zero_padded = env_all_ok\<lparr>proc_reply := (\<lambda>n. (0, ''warning: zeroPaddedFilemode: bad mode''))\<rparr>"

definition env_clone_fails :: env where
  "env_clone_fails = env_all_ok\<lparr>proc_reply := (\<lambda>n. if n = 2 then (128, ''fatal'') else (0, []))\<rparr>"

definition group_index0 :: "(string \<times> string) list" where
  "group_index0 = [(''/cfg/groups/org/p.yaml'', ''abc'')]"

definition env_create_fails :: env where
  "env_create_fails = env_all_ok\<lparr>remote_ok := (\<lambda>n. False)\<rparr>"

definition api_no_email :: gerrit_api where
  "api_no_email = api0\<lparr>gitid := ''jeepyb''\<rparr>"

definition co_no_email :: checkout where
  "co_no_email = GerritCheckout ''org/p'' ''/cache/org/p'' None api_no_email"

section \<open>Strings\<close>

lemma startswith_iff: "startswith s p \<longleftrightarrow> (\<exists>b. s = p @ b)"
  by (induction s p rule: startswith.induct) auto

lemma str_in_iff: "str_in p s \<longleftrightarrow> (\<exists>a b. s = a @ p @ b)"
proof (induction s)
  case Nil
  then show ?case by auto
next
  case (Cons c cs)
  show ?case
  proof
    assume "str_in p (c # cs)"
    then consider "startswith (c # cs) p" | "str_in p cs" by auto
    then show "\<exists>a b. c # cs = a @ p @ b"
    proof cases
      case 1
      then obtain b where "c # cs = p @ b" by (auto simp: startswith_iff)
      then have "c # cs = [] @ p @ b" by simp
      then show ?thesis by blast
    next
      case 2
      then obtain a b where "cs = a @ p @ b" using Cons.IH by auto
      then have "c # cs = (c # a) @ p @ b" by simp
      then show ?thesis by blast
    qed
  next
    assume "\<exists>a b. c # cs = a @ p @ b"
    then obtain a b where ab: "c # cs = a @ p @ b" by blast
    show "str_in p (c # cs)"
    proof (cases a)
      case Nil
      with ab have "startswith (c # cs) p" by (auto simp: startswith_iff)
      then show ?thesis by simp
    next
      case (Cons x a')
      with ab have "cs = a' @ p @ b" by simp
      then have "str_in p cs" using Cons.IH by blast
      then show ?thesis by simp
    qed
  qed
qed

lemma dropWhile_keeps:
  assumes "p \<noteq> []" "\<not> P (hd p)"
  shows "\<exists>a'. dropWhile P (a @ p @ b) = a' @ p @ b"
proof (cases "\<forall>x\<in>set a. P x")
  case True
  then have "dropWhile P (a @ p @ b) = dropWhile P (p @ b)" by (simp add: dropWhile_append)
  also have "\<dots> = p @ b" using assms by (cases p) auto
  finally have "dropWhile P (a @ p @ b) = [] @ p @ b" by simp
  then show ?thesis by blast
next
  case False
  then have "dropWhile P (a @ p @ b) = dropWhile P a @ p @ b" by (auto simp: dropWhile_append)
  then show ?thesis by blast
qed

lemma dropWhile_suffix: "\<exists>pre. s = pre @ dropWhile P s"
  by (metis takeWhile_dropWhile_id)

lemma str_in_strip:
  assumes "p \<noteq> []" "\<not> is_space (hd p)" "\<not> is_space (last p)"
  shows "str_in p (strip s) \<longleftrightarrow> str_in p s"
proof
  assume "str_in p (strip s)"
  then obtain a b where ab: "strip s = a @ p @ b" by (auto simp: str_in_iff)
  obtain pre where pre: "s = pre @ dropWhile is_space s" using dropWhile_suffix by blast
  obtain post where post: "rev (dropWhile is_space s) = post @ dropWhile is_space (rev (dropWhile is_space s))"
    using dropWhile_suffix by blast
  have "dropWhile is_space s = rev (post @ rev (strip s))"
    using post by (simp add: strip_def)
  then have "dropWhile is_space s = strip s @ rev post" by simp
  with pre ab have "s = (pre @ a) @ p @ (b @ rev post)" by simp
  then show "str_in p s" unfolding str_in_iff by blast
next
  assume "str_in p s"
  then obtain a b where ab: "s = a @ p @ b" by (auto simp: str_in_iff)
  obtain a' where a': "dropWhile is_space s = a' @ p @ b"
    using dropWhile_keeps[of p is_space a b] assms(1,2) ab by blast
  have rp: "rev p \<noteq> []" "\<not> is_space (hd (rev p))" using assms by (auto simp: hd_rev)
  have "rev (dropWhile is_space s) = rev b @ rev p @ rev a'" using a' by simp
  then obtain b' where "dropWhile is_space (rev (dropWhile is_space s)) = b' @ rev p @ rev a'"
    using dropWhile_keeps[of "rev p" is_space "rev b" "rev a'"] rp by auto
  then have "strip s = a' @ p @ rev b'" by (simp add: strip_def)
  then show "str_in p (strip s)" unfolding str_in_iff by blast
qed

section \<open>The event log and the primitives\<close>

lemma runs_of_append [simp]: "runs_of argv (t @ t') = runs_of argv t @ runs_of argv t'"
  by (induction argv t rule: runs_of.induct) auto

lemma sleeps_append [simp]: "sleeps (t @ t') = sleeps t @ sleeps t'"
  by (induction t rule: sleeps.induct) auto

lemma log_event_simps [simp]:
  "trace (log_event ev w) = trace w @ [ev]"
  "repos (log_event ev w) = repos w"
  "gerrit_projects (log_event ev w) = gerrit_projects w"
  "project_cache (log_event ev w) = project_cache w"
  by (simp_all add: log_event_def)

lemma sleep_simps [simp]:
  "trace (sleep n w) = trace w @ [Sleep n]"
  "repos (sleep n w) = repos w"
  "gerrit_projects (sleep n w) = gerrit_projects w"
  "project_cache (sleep n w) = project_cache w"
  by (simp_all add: sleep_def)

lemma git_command_output_simps [simp]:
  "fst (git_command_output e d c w) =
     (fst (proc_reply e (length (trace w))), strip (snd (proc_reply e (length (trace w)))))"
  "trace (snd (git_command_output e d c w)) =
     trace w @ [Run (git_argv d c) (fst (proc_reply e (length (trace w))))
                  (strip (snd (proc_reply e (length (trace w)))))]"
  "gerrit_projects (snd (git_command_output e d c w)) = gerrit_projects w"
  "project_cache (snd (git_command_output e d c w)) = project_cache w"
  "repos (snd (git_command_output e d c w)) =
     (if fst (proc_reply e (length (trace w))) = 0
      then (repos w)(d := git_effect c (repos w d)) else repos w)"
  by (simp_all add: git_command_output_def run_command_status_def Let_def split_def)

lemma git_command_simps [simp]:
  "fst (git_command e d c w) = fst (proc_reply e (length (trace w)))"
  "snd (git_command e d c w) = snd (git_command_output e d c w)"
  by (simp_all add: git_command_def Let_def split_def)

section \<open>Acquisition: the polling loops of fetch_meta_config\<close>

lemma fetch_poll_trace:
  "\<exists>t. trace (snd (fetch_poll e self n w)) = trace w @ t
     \<and> (\<forall>argv. argv \<noteq> git_argv (mu_checkout_path self) (fetch_cmd self) \<longrightarrow> runs_of argv t = [])
     \<and> length (runs_of (git_argv (mu_checkout_path self) (fetch_cmd self)) t) \<le> n
     \<and> (fst (fetch_poll e self n w) \<longleftrightarrow>
          list_ex (\<lambda>r. fst r = 0) (runs_of (git_argv (mu_checkout_path self) (fetch_cmd self)) t))
     \<and> (\<not> fst (fetch_poll e self n w) \<longrightarrow>
          length (runs_of (git_argv (mu_checkout_path self) (fetch_cmd self)) t) = n)
     \<and> sleeps t = replicate (length (failed (runs_of (git_argv (mu_checkout_path self) (fetch_cmd self)) t))) 2
     \<and> (0 < n \<longrightarrow> runs_of (git_argv (mu_checkout_path self) (fetch_cmd self)) t \<noteq> [])
     \<and> (\<forall>x\<in>set (butlast (runs_of (git_argv (mu_checkout_path self) (fetch_cmd self)) t)). fst x \<noteq> 0)
     \<and> (\<forall>ev\<in>set t. ev = Sleep 2
            \<or> (\<exists>s out. ev = Run (git_argv (mu_checkout_path self) (fetch_cmd self)) s out))"
proof (induction n arbitrary: w)
  case 0
  then show ?case by (simp add: failed_def)
next
  case (Suc n)
  let ?F = "git_argv (mu_checkout_path self) (fetch_cmd self)"
  let ?st = "fst (proc_reply e (length (trace w)))"
  let ?w1 = "snd (git_command e (mu_checkout_path self) (fetch_cmd self) w)"
  show ?case
  proof (cases "?st = 0")
    case True
    then show ?thesis
      by (simp add: split_def failed_def)
  next
    case False
    from Suc.IH[of "sleep 2 ?w1"] obtain t where
      t: "trace (snd (fetch_poll e self n (sleep 2 ?w1))) = trace (sleep 2 ?w1) @ t"
        "\<forall>argv. argv \<noteq> ?F \<longrightarrow> runs_of argv t = []"
        "length (runs_of ?F t) \<le> n"
        "fst (fetch_poll e self n (sleep 2 ?w1)) \<longleftrightarrow> list_ex (\<lambda>r. fst r = 0) (runs_of ?F t)"
        "\<not> fst (fetch_poll e self n (sleep 2 ?w1)) \<longrightarrow> length (runs_of ?F t) = n"
        "sleeps t = replicate (length (failed (runs_of ?F t))) 2"
        "0 < n \<longrightarrow> runs_of ?F t \<noteq> []"
        "\<forall>x\<in>set (butlast (runs_of ?F t)). fst x \<noteq> 0"
        "\<forall>ev\<in>set t. ev = Sleep 2 \<or> (\<exists>s out. ev = Run ?F s out)"
      by blast
    have eq: "fetch_poll e self (Suc n) w = fetch_poll e self n (sleep 2 ?w1)"
      using False by (simp add: split_def)
    show ?thesis
      unfolding eq using t False
      by (intro exI[of _ "[Run ?F ?st (strip (snd (proc_reply e (length (trace w))))), Sleep 2] @ t"])
         (auto simp: failed_def)
  qed
qed

lemma update_ls_distinct [simp]:
  "git_argv d update_cmd \<noteq> git_argv d ls_files_cmd"
  "git_argv d ls_files_cmd \<noteq> git_argv d update_cmd"
  "git_argv d (fetch_cmd self) \<noteq> git_argv d update_cmd"
  "git_argv d (fetch_cmd self) \<noteq> git_argv d ls_files_cmd"
  "git_argv d (fetch_cmd self) \<noteq> git_argv d checkout_config_cmd"
  "git_argv d update_cmd \<noteq> git_argv d (fetch_cmd self)"
  "git_argv d ls_files_cmd \<noteq> git_argv d (fetch_cmd self)"
  "git_argv d checkout_config_cmd \<noteq> git_argv d (fetch_cmd self)"
  "git_argv d checkout_config_cmd \<noteq> git_argv d update_cmd"
  "git_argv d checkout_config_cmd \<noteq> git_argv d ls_files_cmd"
  "git_argv d update_cmd \<noteq> git_argv d checkout_config_cmd"
  "git_argv d ls_files_cmd \<noteq> git_argv d checkout_config_cmd"
  by (simp_all add: git_argv_def update_cmd_def ls_files_cmd_def fetch_cmd_def checkout_config_cmd_def)

lemma config_poll_trace:
  "\<exists>t. trace (snd (config_poll e self n w)) = trace w @ t
     \<and> (\<forall>argv. argv \<noteq> git_argv (mu_checkout_path self) update_cmd
             \<and> argv \<noteq> git_argv (mu_checkout_path self) ls_files_cmd \<longrightarrow> runs_of argv t = [])
     \<and> length (runs_of (git_argv (mu_checkout_path self) update_cmd) t) \<le> n
     \<and> length (runs_of (git_argv (mu_checkout_path self) ls_files_cmd) t)
         \<le> length (runs_of (git_argv (mu_checkout_path self) update_cmd) t)
     \<and> (fst (config_poll e self n w) \<longleftrightarrow>
          list_ex probe_ok (runs_of (git_argv (mu_checkout_path self) ls_files_cmd) t))
     \<and> (\<not> fst (config_poll e self n w) \<longrightarrow>
          length (runs_of (git_argv (mu_checkout_path self) update_cmd) t) = n)
     \<and> sleeps t = replicate
          (length (failed (runs_of (git_argv (mu_checkout_path self) update_cmd) t))
           + length (filter (\<lambda>r. \<not> probe_ok r) (runs_of (git_argv (mu_checkout_path self) ls_files_cmd) t))) 2
     \<and> (0 < n \<longrightarrow> runs_of (git_argv (mu_checkout_path self) update_cmd) t \<noteq> [])
     \<and> length (runs_of (git_argv (mu_checkout_path self) ls_files_cmd) t)
         = length (filter (\<lambda>r. fst r = 0) (runs_of (git_argv (mu_checkout_path self) update_cmd) t))
     \<and> (\<forall>x\<in>set (butlast (runs_of (git_argv (mu_checkout_path self) ls_files_cmd) t)). \<not> probe_ok x)
     \<and> (\<forall>ev\<in>set t. ev = Sleep 2
            \<or> (\<exists>s out. ev = Run (git_argv (mu_checkout_path self) update_cmd) s out)
            \<or> (\<exists>s out. ev = Run (git_argv (mu_checkout_path self) ls_files_cmd) s out))"
proof (induction n arbitrary: w)
  case 0
  then show ?case by (simp add: failed_def)
next
  case (Suc n)
  let ?d = "mu_checkout_path self"
  let ?U = "git_argv ?d update_cmd"
  let ?L = "git_argv ?d ls_files_cmd"
  let ?r1 = "proc_reply e (length (trace w))"
  let ?w1 = "snd (git_command e ?d update_cmd w)"
  let ?r2 = "proc_reply e (length (trace ?w1))"
  let ?w2 = "snd (git_command_output e ?d ls_files_cmd ?w1)"
  let ?P = "\<lambda>w' t. trace (snd (config_poll e self n w')) = trace w' @ t
     \<and> (\<forall>argv. argv \<noteq> ?U \<and> argv \<noteq> ?L \<longrightarrow> runs_of argv t = [])
     \<and> length (runs_of ?U t) \<le> n
     \<and> length (runs_of ?L t) \<le> length (runs_of ?U t)
     \<and> (fst (config_poll e self n w') \<longleftrightarrow> list_ex probe_ok (runs_of ?L t))
     \<and> (\<not> fst (config_poll e self n w') \<longrightarrow> length (runs_of ?U t) = n)
     \<and> sleeps t = replicate (length (failed (runs_of ?U t))
           + length (filter (\<lambda>r. \<not> probe_ok r) (runs_of ?L t))) 2
     \<and> (0 < n \<longrightarrow> runs_of ?U t \<noteq> [])
     \<and> length (runs_of ?L t) = length (filter (\<lambda>r. fst r = 0) (runs_of ?U t))
     \<and> (\<forall>x\<in>set (butlast (runs_of ?L t)). \<not> probe_ok x)
     \<and> (\<forall>ev\<in>set t. ev = Sleep 2 \<or> (\<exists>s out. ev = Run ?U s out) \<or> (\<exists>s out. ev = Run ?L s out))"
  consider (a) "fst ?r1 \<noteq> 0"
    | (b) "fst ?r1 = 0" "\<not> probe_ok (fst ?r2, strip (snd ?r2))"
    | (c) "fst ?r1 = 0" "probe_ok (fst ?r2, strip (snd ?r2))"
    by blast
  then show ?case
  proof cases
    case a
    from Suc.IH[of "sleep 2 ?w1"] obtain t where t: "?P (sleep 2 ?w1) t" by blast
    have eq: "config_poll e self (Suc n) w = config_poll e self n (sleep 2 ?w1)"
      using a by (simp add: split_def)
    show ?thesis
      unfolding eq using t a
      by (intro exI[of _ "[Run ?U (fst ?r1) (strip (snd ?r1)), Sleep 2] @ t"])
         (auto simp: failed_def)
  next
    case b
    from Suc.IH[of "sleep 2 ?w2"] obtain t where t: "?P (sleep 2 ?w2) t" by blast
    have eq: "config_poll e self (Suc n) w = config_poll e self n (sleep 2 ?w2)"
      using b by (auto simp: split_def probe_ok_def Let_def)
    show ?thesis
      unfolding eq using t b
      by (intro exI[of _ "[Run ?U (fst ?r1) (strip (snd ?r1)), Run ?L (fst ?r2) (strip (snd ?r2)), Sleep 2] @ t"])
         (auto simp: failed_def)
  next
    case c
    have eq: "config_poll e self (Suc n) w = (True, ?w2)"
      using c by (auto simp: split_def probe_ok_def Let_def)
    show ?thesis
      unfolding eq using c
      by (intro exI[of _ "[Run ?U (fst ?r1) (strip (snd ?r1)), Run ?L (fst ?r2) (strip (snd ?r2))]"])
         (auto simp: failed_def)
  qed
qed

lemma new_events_append [simp]: "trace w' = trace w @ t \<Longrightarrow> new_events w w' = t"
  by (simp add: new_events_def)

lemma fetch_meta_config_unfold:
  "fetch_meta_config e self w =
     (if \<not> fst (fetch_poll e self 10 w) then (Inl FetchConfigException, snd (fetch_poll e self 10 w))
      else if \<not> fst (config_poll e self 10 (snd (fetch_poll e self 10 w)))
      then (Inl FetchConfigException, snd (config_poll e self 10 (snd (fetch_poll e self 10 w))))
      else (if fst (proc_reply e (length (trace (snd (config_poll e self 10 (snd (fetch_poll e self 10 w))))))) \<noteq> 0
            then Inl FetchConfigException else Inr (),
            snd (git_command e (mu_checkout_path self) checkout_config_cmd
                  (snd (config_poll e self 10 (snd (fetch_poll e self 10 w)))))))"
  by (auto simp: fetch_meta_config_def split_def split: prod.splits bool.splits)

lemma list_ex_last:
  "list_ex P xs \<Longrightarrow> \<forall>x\<in>set (butlast xs). \<not> P x \<Longrightarrow> xs \<noteq> [] \<and> P (last xs)"
  by (induction xs) (auto split: if_splits)

lemma not_list_ex_last:
  "\<not> list_ex P xs \<Longrightarrow> xs \<noteq> [] \<Longrightarrow> \<not> P (last xs)"
  by (induction xs) (auto split: if_splits)

text \<open>
  C5. \<open>fetch_meta_config\<close> first polls the fetch of \<open>refs/meta/config\<close>: it
  runs it at least once and at most 10 times, stops at the first run with exit status 0,
  and sleeps 2 seconds after every run that failed. If all 10 fetches failed, it raises
  \<open>FetchConfigException\<close> and does nothing else. Otherwise it polls for
  \<open>project.config\<close>: at least one and at most 10 updates of the remotes, a look for
  \<open>project.config\<close> in the fetched tree after each update that succeeded, a sleep of
  2 seconds after every attempt that failed, and it stops at the first look that shows the
  file. If no look among the 10 attempts showed it, it raises \<open>FetchConfigException\<close>
  without a checkout. Otherwise it runs the checkout of the branch \<open>config\<close> exactly
  once, as the last command. It returns without error exactly when a fetch succeeded, a look
  showed \<open>project.config\<close> and the checkout exited with status 0; in every other case it
  raises \<open>FetchConfigException\<close>. The commands come in this order: fetches, then updates
  and looks, then the checkout.
\<close>

theorem fetch_meta_config_polling:
  "(let r = fst (fetch_meta_config e self w);
        t = new_events w (snd (fetch_meta_config e self w));
        fetches = runs_of (git_argv (mu_checkout_path self) (fetch_cmd self)) t;
        updates = runs_of (git_argv (mu_checkout_path self) update_cmd) t;
        probes = runs_of (git_argv (mu_checkout_path self) ls_files_cmd) t;
        checkouts = runs_of (git_argv (mu_checkout_path self) checkout_config_cmd) t
    in length fetches \<le> 10 \<and> length updates \<le> 10 \<and> length probes \<le> length updates
       \<and> (r = Inl FetchConfigException \<or> r = Inr ())
       \<and> (r = Inl FetchConfigException \<longleftrightarrow>
             (length fetches = 10 \<and> \<not> list_ex (\<lambda>x. fst x = 0) fetches)
           \<or> (length updates = 10 \<and> \<not> list_ex probe_ok probes)
           \<or> list_ex (\<lambda>x. fst x \<noteq> 0) checkouts)
       \<and> sleeps t = replicate (length (failed fetches) + length (failed updates)
                                 + length (filter (\<lambda>x. \<not> probe_ok x) probes)) 2
       \<and> fetches \<noteq> []
       \<and> (\<forall>x\<in>set (butlast fetches). fst x \<noteq> 0)
       \<and> (length fetches < 10 \<longrightarrow> fst (last fetches) = 0)
       \<and> (fst (last fetches) \<noteq> 0 \<longrightarrow> updates = [] \<and> probes = [] \<and> checkouts = [])
       \<and> (fst (last fetches) = 0 \<longrightarrow>
             updates \<noteq> []
             \<and> length probes = length (filter (\<lambda>x. fst x = 0) updates)
             \<and> (\<forall>x\<in>set (butlast probes). \<not> probe_ok x)
             \<and> (length updates < 10 \<longrightarrow> probes \<noteq> [] \<and> probe_ok (last probes))
             \<and> (if probes \<noteq> [] \<and> probe_ok (last probes)
                 then length checkouts = 1 else checkouts = []))
       \<and> (r = Inr () \<longleftrightarrow>
             fst (last fetches) = 0 \<and> probes \<noteq> [] \<and> probe_ok (last probes)
             \<and> (\<exists>out. checkouts = [(0, out)]))
       \<and> (\<exists>t1 t2 t3. t = t1 @ t2 @ t3
             \<and> (\<forall>ev\<in>set t1. ev = Sleep 2
                   \<or> (\<exists>s out. ev = Run (git_argv (mu_checkout_path self) (fetch_cmd self)) s out))
             \<and> (\<forall>ev\<in>set t2. ev = Sleep 2
                   \<or> (\<exists>s out. ev = Run (git_argv (mu_checkout_path self) update_cmd) s out)
                   \<or> (\<exists>s out. ev = Run (git_argv (mu_checkout_path self) ls_files_cmd) s out))
             \<and> (t3 = [] \<or> (\<exists>s out. t3 = [Run (git_argv (mu_checkout_path self) checkout_config_cmd) s out]))))"
proof -
  let ?d = "mu_checkout_path self"
  let ?F = "git_argv ?d (fetch_cmd self)"
  let ?U = "git_argv ?d update_cmd"
  let ?L = "git_argv ?d ls_files_cmd"
  let ?C = "git_argv ?d checkout_config_cmd"
  let ?w1 = "snd (fetch_poll e self 10 w)"
  let ?w2 = "snd (config_poll e self 10 ?w1)"
  from fetch_poll_trace[of e self 10 w] obtain t1 where
    t1: "trace ?w1 = trace w @ t1"
      "\<forall>argv. argv \<noteq> ?F \<longrightarrow> runs_of argv t1 = []"
      "length (runs_of ?F t1) \<le> 10"
      "fst (fetch_poll e self 10 w) \<longleftrightarrow> list_ex (\<lambda>r. fst r = 0) (runs_of ?F t1)"
      "\<not> fst (fetch_poll e self 10 w) \<longrightarrow> length (runs_of ?F t1) = 10"
      "sleeps t1 = replicate (length (failed (runs_of ?F t1))) 2"
    and s1: "runs_of ?F t1 \<noteq> []"
      "\<forall>x\<in>set (butlast (runs_of ?F t1)). fst x \<noteq> 0"
    and ev1: "\<forall>ev\<in>set t1. ev = Sleep 2 \<or> (\<exists>s out. ev = Run ?F s out)"
    by auto
  from config_poll_trace[of e self 10 ?w1] obtain t2 where
    t2: "trace ?w2 = trace ?w1 @ t2"
      "\<forall>argv. argv \<noteq> ?U \<and> argv \<noteq> ?L \<longrightarrow> runs_of argv t2 = []"
      "length (runs_of ?U t2) \<le> 10"
      "length (runs_of ?L t2) \<le> length (runs_of ?U t2)"
      "fst (config_poll e self 10 ?w1) \<longleftrightarrow> list_ex probe_ok (runs_of ?L t2)"
      "\<not> fst (config_poll e self 10 ?w1) \<longrightarrow> length (runs_of ?U t2) = 10"
      "sleeps t2 = replicate (length (failed (runs_of ?U t2))
           + length (filter (\<lambda>r. \<not> probe_ok r) (runs_of ?L t2))) 2"
    and s2: "runs_of ?U t2 \<noteq> []"
      "length (runs_of ?L t2) = length (filter (\<lambda>r. fst r = 0) (runs_of ?U t2))"
      "\<forall>x\<in>set (butlast (runs_of ?L t2)). \<not> probe_ok x"
    and ev2: "\<forall>ev\<in>set t2. ev = Sleep 2 \<or> (\<exists>s out. ev = Run ?U s out) \<or> (\<exists>s out. ev = Run ?L s out)"
    by auto
  have F1: "runs_of ?U t1 = []" "runs_of ?L t1 = []" "runs_of ?C t1 = []"
    using t1(2) by simp_all
  have F2: "runs_of ?F t2 = []" "runs_of ?C t2 = []"
    using t2(2) by simp_all
  have lastF: "fst (last (runs_of ?F t1)) = 0 \<longleftrightarrow> fst (fetch_poll e self 10 w)"
    using list_ex_last[of "\<lambda>r. fst r = 0" "runs_of ?F t1"]
      not_list_ex_last[of "\<lambda>r. fst r = 0" "runs_of ?F t1"] s1 t1(4) by blast
  have lastL: "runs_of ?L t2 \<noteq> [] \<and> probe_ok (last (runs_of ?L t2)) \<longleftrightarrow> fst (config_poll e self 10 ?w1)"
    using list_ex_last[of probe_ok "runs_of ?L t2"]
      not_list_ex_last[of probe_ok "runs_of ?L t2"] s2(3) t2(5) by blast
  consider (a) "\<not> fst (fetch_poll e self 10 w)"
    | (b) "fst (fetch_poll e self 10 w)" "\<not> fst (config_poll e self 10 ?w1)"
    | (c) "fst (fetch_poll e self 10 w)" "fst (config_poll e self 10 ?w1)"
    by blast
  then show ?thesis
  proof cases
    case a
    then have eq: "fetch_meta_config e self w = (Inl FetchConfigException, ?w1)"
      by (simp add: fetch_meta_config_unfold)
    have ne: "new_events w ?w1 = t1" using t1(1) by simp
    have dec: "\<exists>u1 u2 u3. t1 = u1 @ u2 @ u3
             \<and> (\<forall>ev\<in>set u1. ev = Sleep 2 \<or> (\<exists>s out. ev = Run ?F s out))
             \<and> (\<forall>ev\<in>set u2. ev = Sleep 2 \<or> (\<exists>s out. ev = Run ?U s out) \<or> (\<exists>s out. ev = Run ?L s out))
             \<and> (u3 = [] \<or> (\<exists>s out. u3 = [Run ?C s out]))"
      using ev1 by (intro exI[of _ t1] exI[of _ "[]"]) simp
    show ?thesis
      unfolding eq Let_def fst_conv snd_conv ne
      using a t1 F1 s1 lastF dec by (simp add: failed_def)
  next
    case b
    then have eq: "fetch_meta_config e self w = (Inl FetchConfigException, ?w2)"
      by (simp add: fetch_meta_config_unfold)
    have ne: "new_events w ?w2 = t1 @ t2" using t1(1) t2(1) by simp
    have dec: "\<exists>u1 u2 u3. t1 @ t2 = u1 @ u2 @ u3
             \<and> (\<forall>ev\<in>set u1. ev = Sleep 2 \<or> (\<exists>s out. ev = Run ?F s out))
             \<and> (\<forall>ev\<in>set u2. ev = Sleep 2 \<or> (\<exists>s out. ev = Run ?U s out) \<or> (\<exists>s out. ev = Run ?L s out))
             \<and> (u3 = [] \<or> (\<exists>s out. u3 = [Run ?C s out]))"
      using ev1 ev2 by (intro exI[of _ t1] exI[of _ t2] exI[of _ "[]"]) simp
    show ?thesis
      unfolding eq Let_def fst_conv snd_conv ne
      using b t1 t2 F1 F2 s1 s2 lastF lastL dec by (simp add: failed_def replicate_add)
  next
    case c
    let ?r3 = "proc_reply e (length (trace ?w2))"
    let ?w3 = "snd (git_command e ?d checkout_config_cmd ?w2)"
    have eq: "fetch_meta_config e self w =
        (if fst ?r3 \<noteq> 0 then Inl FetchConfigException else Inr (), ?w3)"
      using c by (simp add: fetch_meta_config_unfold)
    have ne: "new_events w ?w3 = t1 @ t2 @ [Run ?C (fst ?r3) (strip (snd ?r3))]"
      using t1(1) t2(1) by simp
    have dec: "\<exists>u1 u2 u3. t1 @ t2 @ [Run ?C (fst ?r3) (strip (snd ?r3))] = u1 @ u2 @ u3
             \<and> (\<forall>ev\<in>set u1. ev = Sleep 2 \<or> (\<exists>s out. ev = Run ?F s out))
             \<and> (\<forall>ev\<in>set u2. ev = Sleep 2 \<or> (\<exists>s out. ev = Run ?U s out) \<or> (\<exists>s out. ev = Run ?L s out))
             \<and> (u3 = [] \<or> (\<exists>s out. u3 = [Run ?C s out]))"
      using ev1 ev2
      by (intro exI[of _ t1] exI[of _ t2] exI[of _ "[Run ?C (fst ?r3) (strip (snd ?r3))]"]) simp
    show ?thesis
      unfolding eq Let_def fst_conv snd_conv ne
      using c t1 t2 F1 F2 s1 s2 lastF lastL dec by (simp add: failed_def replicate_add)
  qed
qed

section \<open>The metadata transaction\<close>

lemma meta_enter_path:
  "meta_enter e mu w = (Inr self, w1) \<Longrightarrow> mu_checkout_path self = mu_checkout_path mu"
  by (auto simp: meta_enter_def Let_def split_def split: prod.splits sum.splits if_splits)

lemma meta_exit_cleanup:
  "\<exists>pre s1 o0 s2 o1 s3 o2.
     trace (snd (meta_exit e self exc w)) =
       pre @ [Run (git_argv (mu_checkout_path self) [''reset'', ''--hard'']) s1 o0,
              Run (git_argv (mu_checkout_path self) [''checkout'', current_head self]) s2 o1,
              Run (git_argv (mu_checkout_path self) [''branch'', ''-D'', ''config'']) s3 o2]
     \<and> fst (meta_exit e self exc w)
     \<and> (s2 = 0 \<and> s3 = 0 \<longrightarrow>
          current_branch (repos (snd (meta_exit e self exc w)) (mu_checkout_path self)) = current_head self
          \<and> ''config'' \<notin> set (branches (repos (snd (meta_exit e self exc w)) (mu_checkout_path self))))"
  by (simp add: meta_exit_def Let_def split_def)

text \<open>
  C2, as amended. Once the acquisition of a metadata transaction has succeeded, then
  whatever the body does (it returns or it raises) and whatever the commit and the push of
  the release phase do, the transaction raises nothing, and its last three commands are
  \<open>reset --hard\<close>, the checkout of the branch recorded at acquisition time and
  \<open>branch -D config\<close>. If the last two of them exit with status 0, the current branch of
  the working copy is the recorded branch afterwards and no branch \<open>config\<close> is left.
  The code does not look at their exit status.
\<close>

theorem meta_transaction_cleanup:
  assumes enter: "meta_enter e mu w = (Inr self, w1)"
  shows "fst (with_meta_updater e mu body w) = Inr ()
     \<and> (\<exists>pre s1 o0 s2 o1 s3 o2.
           trace (snd (with_meta_updater e mu body w)) =
             pre @ [Run (git_argv (mu_checkout_path mu) [''reset'', ''--hard'']) s1 o0,
                    Run (git_argv (mu_checkout_path mu) [''checkout'', current_head self]) s2 o1,
                    Run (git_argv (mu_checkout_path mu) [''branch'', ''-D'', ''config'']) s3 o2])
     \<and> (\<forall>o1 o2.
           drop (length (trace (snd (with_meta_updater e mu body w))) - 2)
                (trace (snd (with_meta_updater e mu body w))) =
             [Run (git_argv (mu_checkout_path mu) [''checkout'', current_head self]) 0 o1,
              Run (git_argv (mu_checkout_path mu) [''branch'', ''-D'', ''config'']) 0 o2]
           \<longrightarrow> current_branch (repos (snd (with_meta_updater e mu body w)) (mu_checkout_path mu))
                 = current_head self
               \<and> ''config'' \<notin> set (branches (repos (snd (with_meta_updater e mu body w)) (mu_checkout_path mu))))"
proof -
  have p: "mu_checkout_path self = mu_checkout_path mu"
    using enter by (rule meta_enter_path)
  obtain rb w2 where body: "body w1 = (rb, w2)" by (cases "body w1")
  define exc where "exc = (case rb of Inl x \<Rightarrow> Some x | Inr r \<Rightarrow> None)"
  have eq: "with_meta_updater e mu body w = (Inr (), snd (meta_exit e self exc w2))"
    using enter body meta_exit_cleanup[of e self exc w2]
    by (auto simp: with_meta_updater_def exc_def split_def split: sum.splits)
  from meta_exit_cleanup[of e self exc w2] obtain pre s1 o0 s2 o1 s3 o2 where
    t: "trace (snd (meta_exit e self exc w2)) =
         pre @ [Run (git_argv (mu_checkout_path mu) [''reset'', ''--hard'']) s1 o0,
                Run (git_argv (mu_checkout_path mu) [''checkout'', current_head self]) s2 o1,
                Run (git_argv (mu_checkout_path mu) [''branch'', ''-D'', ''config'']) s3 o2]"
    and r: "s2 = 0 \<and> s3 = 0 \<longrightarrow>
          current_branch (repos (snd (meta_exit e self exc w2)) (mu_checkout_path mu)) = current_head self
          \<and> ''config'' \<notin> set (branches (repos (snd (meta_exit e self exc w2)) (mu_checkout_path mu)))"
    unfolding p by blast
  have last2: "drop (length (trace (snd (meta_exit e self exc w2))) - 2) (trace (snd (meta_exit e self exc w2)))
      = [Run (git_argv (mu_checkout_path mu) [''checkout'', current_head self]) s2 o1,
         Run (git_argv (mu_checkout_path mu) [''branch'', ''-D'', ''config'']) s3 o2]"
    unfolding t by simp
  show ?thesis
    unfolding eq fst_conv snd_conv last2 using t r by auto
qed

section \<open>What leaves the change cache alone\<close>

lemma path_exists_cache [simp]: "project_cache (snd (path_exists e p w)) = project_cache w"
  by (simp add: path_exists_def Let_def)

lemma isfile_cache [simp]: "project_cache (snd (isfile e p w)) = project_cache w"
  by (simp add: isfile_def Let_def)

lemma path_exists_cacheD: "path_exists e p w = (b, w') \<Longrightarrow> project_cache w' = project_cache w"
  by (auto simp: path_exists_def Let_def)

lemma isfile_cacheD: "isfile e p w = (b, w') \<Longrightarrow> project_cache w' = project_cache w"
  by (auto simp: isfile_def Let_def)

lemma groups_dict_cacheD: "groups_dict e w = (d, w') \<Longrightarrow> project_cache w' = project_cache w"
  by (auto simp: groups_dict_def listGroups_def Let_def)

lemma createGroup_cacheD: "createGroup e n w = (r, w') \<Longrightarrow> project_cache w' = project_cache w"
  by (auto simp: createGroup_def split: if_splits)

lemma add_include_groups_cacheD:
  "add_include_groups e g gs w = (r, w') \<Longrightarrow> project_cache w' = project_cache w"
  by (induction gs arbitrary: w) (auto split: if_splits)

lemma create_group_cacheD:
  "create_group e n ms ss ls w = (r, w') \<Longrightarrow> project_cache w' = project_cache w"
  by (auto simp: create_group_def Let_def split: sum.splits prod.splits if_splits
      dest!: groups_dict_cacheD createGroup_cacheD add_include_groups_cacheD)

lemma get_group_uuid_loop_cacheD:
  "get_group_uuid_loop e g r n w = (x, w') \<Longrightarrow> project_cache w' = project_cache w"
proof (induction n arbitrary: w)
  case 0
  then show ?case by simp
next
  case (Suc n)
  obtain d w1 where g: "groups_dict e w = (d, w1)" by (cases "groups_dict e w")
  then have c1: "project_cache w1 = project_cache w" by (rule groups_dict_cacheD)
  show ?case
  proof (cases "d g")
    case None
    with Suc.prems g have "get_group_uuid_loop e g r n (if r > 1 then sleep 1 w1 else w1) = (x, w')"
      by simp
    from Suc.IH[OF this] c1 show ?thesis by (simp split: if_splits)
  next
    case (Some a)
    with Suc.prems g c1 show ?thesis by (auto split: option.splits)
  qed
qed

lemma get_group_uuid_cacheD:
  "get_group_uuid e g n w = (x, w') \<Longrightarrow> project_cache w' = project_cache w"
  unfolding get_group_uuid_def by (rule get_group_uuid_loop_cacheD)

lemma group_uuid_cacheD:
  "group_uuid e g w = (r, w') \<Longrightarrow> project_cache w' = project_cache w"
  by (auto simp: group_uuid_def split: sum.splits prod.splits option.splits if_splits
      dest!: get_group_uuid_cacheD create_group_cacheD)

lemma git_command_cacheD: "git_command e d c w = (r, w') \<Longrightarrow> project_cache w' = project_cache w"
  by (metis git_command_output_simps(4) git_command_simps(2) snd_conv)

lemma git_command_output_cacheD:
  "git_command_output e d c w = (r, w') \<Longrightarrow> project_cache w' = project_cache w"
  by (metis git_command_output_simps(4) snd_conv)

lemma fetch_poll_cache [simp]: "project_cache (snd (fetch_poll e self n w)) = project_cache w"
  by (induction n arbitrary: w) (auto simp: split_def Let_def)

lemma config_poll_cache [simp]: "project_cache (snd (config_poll e self n w)) = project_cache w"
  by (induction n arbitrary: w) (auto simp: split_def Let_def)

lemma fetch_meta_config_cache [simp]:
  "project_cache (snd (fetch_meta_config e self w)) = project_cache w"
  by (simp add: fetch_meta_config_unfold)

lemma push_meta_config_cache [simp]:
  "project_cache (snd (push_meta_config e self w)) = project_cache w"
  by (simp add: push_meta_config_def split_def Let_def)

lemma meta_enter_cache [simp]: "project_cache (snd (meta_enter e mu w)) = project_cache w"
  by (simp add: meta_enter_def split_def Let_def split: sum.splits prod.splits)

lemma meta_exit_cache [simp]: "project_cache (snd (meta_exit e self exc w)) = project_cache w"
  by (simp add: meta_exit_def split_def Let_def)

lemma meta_exit_suppresses [simp]: "fst (meta_exit e self exc w) = True"
  by (simp add: meta_exit_def split_def Let_def)

lemma copy_file_to_git_repo_cacheD:
  "copy_file_to_git_repo e repo f d w = (r, w') \<Longrightarrow> project_cache w' = project_cache w"
  by (auto simp: copy_file_to_git_repo_def Let_def split_def path_exists_def split: if_splits)

lemma resolve_groups_cacheD:
  "resolve_groups e names uuids w = (r, w') \<Longrightarrow> project_cache w' = project_cache w"
proof (induction names arbitrary: uuids w)
  case Nil
  then show ?case by simp
next
  case (Cons g rest)
  show ?case
  proof (cases "g \<in> fst ` set uuids")
    case True
    with Cons.prems have "resolve_groups e rest uuids w = (r, w')" by simp
    then show ?thesis by (rule Cons.IH)
  next
    case False
    obtain x w1 where gu: "group_uuid e g w = (x, w1)" by (cases "group_uuid e g w")
    then have c1: "project_cache w1 = project_cache w" by (rule group_uuid_cacheD)
    show ?thesis
    proof (cases "\<exists>u. x = Inr (Some u) \<and> u \<noteq> []")
      case True
      then obtain u where u: "x = Inr (Some u)" "u \<noteq> []" by blast
      with Cons.prems False gu have "resolve_groups e rest (uuids @ [(g, u)]) w1 = (r, w')"
        by simp
      from Cons.IH[OF this] c1 show ?thesis by simp
    next
      case no: False
      with Cons.prems False gu have "w' = w1"
        by (auto split: sum.splits option.splits if_splits)
      with c1 show ?thesis by simp
    qed
  qed
qed

lemma resolve_groups_cache [simp]:
  "project_cache (snd (resolve_groups e names uuids w)) = project_cache w"
  by (cases "resolve_groups e names uuids w") (auto dest: resolve_groups_cacheD)

lemma create_groups_file_cache [simp]:
  "project_cache (snd (create_groups_file e project repo w)) = project_cache w"
  by (simp add: create_groups_file_def Let_def split_def split: sum.splits)

lemma copy_file_to_git_repo_cache [simp]:
  "project_cache (snd (copy_file_to_git_repo e repo f d w)) = project_cache w"
  by (cases "copy_file_to_git_repo e repo f d w") (auto dest: copy_file_to_git_repo_cacheD)

lemma acl_body_cache [simp]:
  "project_cache (snd (acl_body e acl_path sec w)) = project_cache w"
  by (simp add: acl_body_def split_def split: sum.splits)

section \<open>The cached hashes\<close>

lemma with_meta_updater_result:
  "fst (with_meta_updater e mu body w) =
     (case fst (meta_enter e mu w) of Inl x \<Rightarrow> Inl x | Inr s \<Rightarrow> Inr ())"
  by (auto simp: with_meta_updater_def split_def split: sum.splits prod.splits)

lemma with_meta_updater_cache:
  assumes "\<And>w. project_cache (snd (body w)) = project_cache w"
  shows "project_cache (snd (with_meta_updater e mu body w)) = project_cache w"
proof (cases "meta_enter e mu w")
  case (Pair r1 w1)
  have c1: "project_cache w1 = project_cache w"
    using meta_enter_cache[of e mu w] Pair by simp
  show ?thesis
  proof (cases r1)
    case (Inl x)
    with Pair c1 show ?thesis by (simp add: with_meta_updater_def)
  next
    case (Inr self)
    obtain rb w2 where b: "body w1 = (rb, w2)" by (cases "body w1")
    from assms[of w1] b c1 have c2: "project_cache w2 = project_cache w" by simp
    from Pair Inr b c2 show ?thesis
      by (cases rb) (simp_all add: with_meta_updater_def split_def)
  qed
qed

lemma process_acls_cache:
  "project_cache (snd (process_acls e acl_path sec api w)) = project_cache w"
  by (simp add: process_acls_def Let_def split_def with_meta_updater_cache)

lemma process_prolog_rules_cache:
  "project_cache (snd (process_prolog_rules e prolog_path sec api w)) = project_cache w"
  by (simp add: process_prolog_rules_def Let_def split_def with_meta_updater_cache)

lemma process_acls_cacheD:
  "process_acls e acl_path sec api w = (r, w') \<Longrightarrow> project_cache w' = project_cache w"
  using process_acls_cache[of e acl_path sec api w] by simp

lemma process_prolog_rules_cacheD:
  "process_prolog_rules e p sec api w = (r, w') \<Longrightarrow> project_cache w' = project_cache w"
  using process_prolog_rules_cache[of e p sec api w] by simp

lemma process_acls_result:
  "fst (process_acls e acl_path sec api w) =
     (if fst (isfile e acl_path w)
      then (case fst (meta_enter e (meta_updater api (project_name sec) (repo_path sec))
                        (snd (isfile e acl_path w))) of
              Inl x \<Rightarrow> Inl x | Inr s \<Rightarrow> Inr ())
      else Inr ())"
  by (simp add: process_acls_def Let_def split_def with_meta_updater_result)

lemma process_prolog_rules_result:
  "fst (process_prolog_rules e prolog_path sec api w) =
     (if fst (isfile e prolog_path w)
      then (case fst (meta_enter e (meta_updater api (project_name sec) (repo_path sec))
                        (snd (isfile e prolog_path w))) of
              Inl x \<Rightarrow> Inl x | Inr s \<Rightarrow> Inr ())
      else Inr ())"
  by (simp add: process_prolog_rules_def Let_def split_def with_meta_updater_result)

lemma cache_get_set:
  "project_cache w (project_name sec) = Some r \<Longrightarrow> cache_get sec k (cache_set sec k v w) = Some v"
  by (simp add: cache_get_def cache_set_def)

text \<open>
  C1, as amended, for the fields \<open>acl-sha\<close> and \<open>prolog-sha\<close>. The flow
  (\<open>process_acls\<close>, \<open>process_prolog_rules\<close>) raises exactly when the source file
  exists and the acquisition of the metadata transaction raises. When the cached hash
  differs from the new one: if the flow raises, the cache is left as it was; if the flow
  returns, the cached hash is the new hash afterwards. What the commit and the push did
  makes no difference: their failure is not reported to the Driver.
\<close>

theorem hash_updated_when_flow_returns:
  assumes "project_cache w (project_name sec) = Some record"
  shows
    "((\<exists>x. fst (process_acls e name sec api w) = Inl x) \<longleftrightarrow>
        fst (isfile e name w) \<and>
        (\<exists>x. fst (meta_enter e (meta_updater api (project_name sec) (repo_path sec))
                   (snd (isfile e name w))) = Inl x))
     \<and> (cache_get sec ''acl-sha'' w \<noteq> Some (CStr sha) \<longrightarrow>
          (if \<exists>x. fst (process_acls e name sec api w) = Inl x
           then project_cache (snd (main_acl_loop e sec api [(name, sha)] w)) = project_cache w
           else cache_get sec ''acl-sha'' (snd (main_acl_loop e sec api [(name, sha)] w)) = Some (CStr sha)))
     \<and> ((\<exists>x. fst (process_prolog_rules e name sec api w) = Inl x) \<longleftrightarrow>
        fst (isfile e name w) \<and>
        (\<exists>x. fst (meta_enter e (meta_updater api (project_name sec) (repo_path sec))
                   (snd (isfile e name w))) = Inl x))
     \<and> (cache_get sec ''prolog-sha'' w \<noteq> Some (CStr sha) \<longrightarrow>
          (if \<exists>x. fst (process_prolog_rules e name sec api w) = Inl x
           then project_cache (snd (main_prolog_loop e sec api [(name, sha)] w)) = project_cache w
           else cache_get sec ''prolog-sha'' (snd (main_prolog_loop e sec api [(name, sha)] w)) = Some (CStr sha)))"
proof -
  have a1: "(\<exists>x. fst (process_acls e name sec api w) = Inl x) \<longleftrightarrow>
        fst (isfile e name w) \<and>
        (\<exists>x. fst (meta_enter e (meta_updater api (project_name sec) (repo_path sec))
                   (snd (isfile e name w))) = Inl x)"
    by (auto simp: process_acls_result split: sum.splits)
  have p1: "(\<exists>x. fst (process_prolog_rules e name sec api w) = Inl x) \<longleftrightarrow>
        fst (isfile e name w) \<and>
        (\<exists>x. fst (meta_enter e (meta_updater api (project_name sec) (repo_path sec))
                   (snd (isfile e name w))) = Inl x)"
    by (auto simp: process_prolog_rules_result split: sum.splits)
  have rec_a: "project_cache (snd (process_acls e name sec api w)) (project_name sec) = Some record"
    using assms by (simp add: process_acls_cache)
  have rec_p: "project_cache (snd (process_prolog_rules e name sec api w)) (project_name sec) = Some record"
    using assms by (simp add: process_prolog_rules_cache)
  have a2: "cache_get sec ''acl-sha'' w \<noteq> Some (CStr sha) \<longrightarrow>
          (if \<exists>x. fst (process_acls e name sec api w) = Inl x
           then project_cache (snd (main_acl_loop e sec api [(name, sha)] w)) = project_cache w
           else cache_get sec ''acl-sha'' (snd (main_acl_loop e sec api [(name, sha)] w)) = Some (CStr sha))"
    using rec_a
    by (cases "process_acls e name sec api w"; cases "fst (process_acls e name sec api w)")
       (auto simp: cache_get_set dest: process_acls_cacheD)
  have p2: "cache_get sec ''prolog-sha'' w \<noteq> Some (CStr sha) \<longrightarrow>
          (if \<exists>x. fst (process_prolog_rules e name sec api w) = Inl x
           then project_cache (snd (main_prolog_loop e sec api [(name, sha)] w)) = project_cache w
           else cache_get sec ''prolog-sha'' (snd (main_prolog_loop e sec api [(name, sha)] w)) = Some (CStr sha))"
    using rec_p
    by (cases "process_prolog_rules e name sec api w"; cases "fst (process_prolog_rules e name sec api w)")
       (auto simp: cache_get_set dest: process_prolog_rules_cacheD)
  from a1 a2 p1 p2 show ?thesis by blast
qed

section \<open>Rules for running the model on concrete inputs\<close>

lemma listGroups_unfold:
  "listGroups e w =
     (groups_reply e (length (trace w)), log_event (ListGroups (groups_reply e (length (trace w)))) w)"
  by (simp add: listGroups_def Let_def)

lemma add_group_unfold:
  "add_group grp groups =
     (case group_dict_of grp ''name'' of None \<Rightarrow> groups | Some n \<Rightarrow> groups(n \<mapsto> group_dict_of grp))"
  by (simp add: add_group_def Let_def)

lemmas prim_defs = log_event_def sleep_def run_command_status_def run_command_def
  git_command_output_def git_command_def git_argv_def path_join_def path_exists_def isfile_def
  projects_def createProject_def create_project_def listGroups_unfold createGroup_def
  strip_def is_space_def

lemmas meta_defs = GerritMetaUpdater_def meta_updater_def get_remote_url_def str_int_def
  fetch_cmd_def update_cmd_def ls_files_cmd_def checkout_config_cmd_def commit_cmd_def
  fetch_meta_config_def push_meta_config_def meta_enter_def meta_exit_def with_meta_updater_def

lemmas acl_defs = copy_file_to_git_repo_def create_groups_file_def acl_body_def process_acls_def
  process_prolog_rules_def cache_get_def cache_set_def JeepybProjectConfig_init_def
  main_process_acl_def index_matching_def fixup_path_def

lemmas data_defs = api0_def world0_def world1_def sec0_def acl_index0_def

lemma str_nat_29418: "str_nat 29418 = ''29418''"
  by (simp add: str_nat.simps)

lemma fetch_poll_numeral:
  "fetch_poll e self (numeral k) w =
     (let (status, w1) = git_command e (mu_checkout_path self) (fetch_cmd self) w
      in if status = 0 then (True, w1) else fetch_poll e self (pred_numeral k) (sleep 2 w1))"
  by (simp add: numeral_eq_Suc)

lemma config_poll_numeral:
  "config_poll e self (numeral k) w =
     (let (status, w1) = git_command e (mu_checkout_path self) update_cmd w
      in if status \<noteq> 0 then config_poll e self (pred_numeral k) (sleep 2 w1)
         else (let ((status, output), w2) = git_command_output e (mu_checkout_path self) ls_files_cmd w1
               in if \<not> str_in ''project.config'' (strip output) \<or> status \<noteq> 0
                  then config_poll e self (pred_numeral k) (sleep 2 w2)
                  else (True, w2)))"
  by (simp add: numeral_eq_Suc)

lemmas run_simps = prim_defs meta_defs acl_defs data_defs str_nat_29418 fetch_poll_numeral config_poll_numeral

section \<open>Group identifier resolution\<close>

lemma listings_append [simp]: "listings (t @ t') = listings t @ listings t'"
  by (induction t rule: listings.induct) auto

lemma groups_dict_simps [simp]:
  "fst (groups_dict e w) = parse_groups (groups_reply e (length (trace w)))"
  "trace (snd (groups_dict e w)) = trace w @ [ListGroups (groups_reply e (length (trace w)))]"
  by (simp_all add: groups_dict_def listGroups_def Let_def)

lemma lookup_uuid_None: "lookup_uuid ls g = Inr None \<longleftrightarrow> parse_groups ls g = None"
  by (auto simp: lookup_uuid_def split: option.splits)

lemma get_group_uuid_loop_trace:
  "\<exists>t. trace (snd (get_group_uuid_loop e g r n w)) = trace w @ t
     \<and> length (listings t) \<le> n
     \<and> (\<forall>ev\<in>set t. (\<exists>ls. ev = ListGroups ls) \<or> ev = Sleep 1)
     \<and> (\<forall>ls\<in>set (butlast (listings t)). lookup_uuid ls g = Inr None)
     \<and> fst (get_group_uuid_loop e g r n w) =
          (if listings t = [] then Inr None else lookup_uuid (last (listings t)) g)
     \<and> (fst (get_group_uuid_loop e g r n w) = Inr None \<longrightarrow> length (listings t) = n)
     \<and> sleeps t = (if r > 1
          then replicate (length (filter (\<lambda>ls. lookup_uuid ls g = Inr None) (listings t))) 1
          else [])"
proof (induction n arbitrary: w)
  case 0
  then show ?case by simp
next
  case (Suc n)
  let ?ls = "groups_reply e (length (trace w))"
  let ?w1 = "snd (groups_dict e w)"
  let ?w2 = "if r > 1 then sleep 1 ?w1 else ?w1"
  show ?case
  proof (cases "parse_groups ?ls g")
    case None
    then have miss: "lookup_uuid ?ls g = Inr None" by (simp add: lookup_uuid_None)
    have eq: "get_group_uuid_loop e g r (Suc n) w = get_group_uuid_loop e g r n ?w2"
      using None by (simp add: split_def Let_def)
    from Suc.IH[of ?w2] obtain t where
      t: "trace (snd (get_group_uuid_loop e g r n ?w2)) = trace ?w2 @ t"
        "length (listings t) \<le> n"
        "\<forall>ev\<in>set t. (\<exists>ls. ev = ListGroups ls) \<or> ev = Sleep 1"
        "\<forall>ls\<in>set (butlast (listings t)). lookup_uuid ls g = Inr None"
        "fst (get_group_uuid_loop e g r n ?w2) =
          (if listings t = [] then Inr None else lookup_uuid (last (listings t)) g)"
        "fst (get_group_uuid_loop e g r n ?w2) = Inr None \<longrightarrow> length (listings t) = n"
        "sleeps t = (if r > 1
          then replicate (length (filter (\<lambda>ls. lookup_uuid ls g = Inr None) (listings t))) 1
          else [])"
      by blast
    let ?t = "(if r > 1 then [ListGroups ?ls, Sleep 1] else [ListGroups ?ls]) @ t"
    have tr: "trace (snd (get_group_uuid_loop e g r n ?w2)) = trace w @ ?t"
      using t(1) by simp
    have li: "listings ?t = ?ls # listings t" by simp
    have sl: "sleeps ?t = (if r > 1 then 1 # sleeps t else sleeps t)" by simp
    have bl: "\<forall>ls\<in>set (butlast (listings ?t)). lookup_uuid ls g = Inr None"
      unfolding li using t(4) miss by (auto simp: butlast.simps(2) split: if_splits)
    have res: "fst (get_group_uuid_loop e g r n ?w2) =
          (if listings ?t = [] then Inr None else lookup_uuid (last (listings ?t)) g)"
      unfolding li using t(5) miss by simp
    have ev: "\<forall>ev\<in>set ?t. (\<exists>ls. ev = ListGroups ls) \<or> ev = Sleep 1"
      using t(3) by auto
    have len: "length (listings ?t) \<le> Suc n"
      "fst (get_group_uuid_loop e g r n ?w2) = Inr None \<longrightarrow> length (listings ?t) = Suc n"
      unfolding li using t(2,6) by simp_all
    have sl': "sleeps ?t = (if r > 1
          then replicate (length (filter (\<lambda>ls. lookup_uuid ls g = Inr None) (listings ?t))) 1
          else [])"
      unfolding li sl using t(7) miss by simp
    show ?thesis
      unfolding eq using tr len ev bl res sl' by blast
  next
    case (Some d)
    then have hit: "lookup_uuid ?ls g \<noteq> Inr None" by (simp add: lookup_uuid_None)
    have eq: "fst (get_group_uuid_loop e g r (Suc n) w) = lookup_uuid ?ls g"
      "snd (get_group_uuid_loop e g r (Suc n) w) = ?w1"
      using Some by (simp_all add: split_def Let_def lookup_uuid_def split: option.splits)
    show ?thesis
      unfolding eq using hit
      by (intro exI[of _ "[ListGroups ?ls]"]) simp
  qed
qed

lemma get_group_uuid_1:
  "get_group_uuid e g (Suc 0) w =
     (lookup_uuid (groups_reply e (length (trace w))) g, snd (groups_dict e w))"
  by (cases "groups_dict e w")
     (auto simp: get_group_uuid_def lookup_uuid_def split_def Let_def split: option.splits
       dest: arg_cong[where f = fst] arg_cong[where f = snd])

lemma create_group_plain:
  "create_group e g [] [] [] w =
     (if parse_groups (groups_reply e (length (trace w))) g = None
      then createGroup e g (snd (groups_dict e w))
      else (Inr (), snd (groups_dict e w)))"
  by (cases "createGroup e g (snd (groups_dict e w))")
     (auto simp: create_group_def split_def Let_def split: sum.splits)

lemma createGroup_cases:
  "(createGroup e g w = (Inr (), log_event (CreateGroup g True) w))
   \<or> (createGroup e g w = (Inl RemoteError, log_event (CreateGroup g False) w))"
  by (simp add: createGroup_def)

lemma usable_uuid_simps:
  "usable_uuid ls g = Some u \<longleftrightarrow> lookup_uuid ls g = Inr (Some u) \<and> u \<noteq> []"
  "usable_uuid ls g = None \<longleftrightarrow> \<not> (\<exists>u. lookup_uuid ls g = Inr (Some u) \<and> u \<noteq> [])"
  by (auto simp: usable_uuid_def split: sum.splits option.splits)

lemma set_butlast_last: "xs \<noteq> [] \<Longrightarrow> set xs = set (butlast xs) \<union> {last xs}"
  by (induction xs) auto

lemma poll_after_create_spec:
  "\<exists>poll. trace (snd (poll_after_create e g w2)) = trace w2 @ poll
     \<and> length (listings poll) \<le> 10
     \<and> (\<forall>ev\<in>set poll. (\<exists>ls. ev = ListGroups ls) \<or> ev = Sleep 1)
     \<and> sleeps poll = replicate (length (filter (\<lambda>ls. lookup_uuid ls g = Inr None) (listings poll))) 1
     \<and> (\<forall>ls\<in>set (butlast (listings poll)). lookup_uuid ls g = Inr None)
     \<and> (\<forall>u. fst (poll_after_create e g w2) = Inr (Some u) \<longrightarrow>
            listings poll \<noteq> [] \<and> usable_uuid (last (listings poll)) g = Some u)
     \<and> (fst (poll_after_create e g w2) = Inr None \<longrightarrow>
            (\<forall>ls\<in>set (listings poll). usable_uuid ls g = None)
            \<and> (length (listings poll) = 10 \<or> lookup_uuid (last (listings poll)) g = Inr (Some [])))"
proof -
  let ?loop = "get_group_uuid_loop e g 10 10 w2"
  have gt: "(10::nat) > 1" by simp
  from get_group_uuid_loop_trace[of e g 10 10 w2] obtain t where
    t: "trace (snd ?loop) = trace w2 @ t"
      "length (listings t) \<le> 10"
      "\<forall>ev\<in>set t. (\<exists>ls. ev = ListGroups ls) \<or> ev = Sleep 1"
      "\<forall>ls\<in>set (butlast (listings t)). lookup_uuid ls g = Inr None"
      "fst ?loop = (if listings t = [] then Inr None else lookup_uuid (last (listings t)) g)"
      "fst ?loop = Inr None \<longrightarrow> length (listings t) = 10"
      "sleeps t = replicate (length (filter (\<lambda>ls. lookup_uuid ls g = Inr None) (listings t))) 1"
    unfolding if_P[OF gt] by blast
  have sn: "snd (poll_after_create e g w2) = snd ?loop"
    by (cases ?loop) (auto simp: poll_after_create_def get_group_uuid_def split: sum.splits)
  have fs: "fst (poll_after_create e g w2) =
      (case fst ?loop of Inl x \<Rightarrow> Inl x | Inr u \<Rightarrow> if truthy_str u then Inr u else Inr None)"
    by (cases ?loop) (auto simp: poll_after_create_def get_group_uuid_def split: sum.splits)
  have butlast_miss: "\<forall>ls\<in>set (butlast (listings t)). usable_uuid ls g = None"
    using t(4) by (auto simp: usable_uuid_simps)
  have split_set: "listings t \<noteq> [] \<Longrightarrow> set (listings t) = set (butlast (listings t)) \<union> {last (listings t)}"
    by (rule set_butlast_last)
  have some: "\<forall>u. fst (poll_after_create e g w2) = Inr (Some u) \<longrightarrow>
            listings t \<noteq> [] \<and> usable_uuid (last (listings t)) g = Some u"
  proof (intro allI impI)
    fix u assume "fst (poll_after_create e g w2) = Inr (Some u)"
    then have a: "fst ?loop = Inr (Some u)" "u \<noteq> []"
      unfolding fs by (auto split: sum.splits if_splits option.splits)
    with t(5) have "listings t \<noteq> []" by (auto split: if_splits)
    moreover from this a t(5) have "lookup_uuid (last (listings t)) g = Inr (Some u)" by simp
    ultimately show "listings t \<noteq> [] \<and> usable_uuid (last (listings t)) g = Some u"
      using a(2) by (simp add: usable_uuid_simps)
  qed
  have none: "fst (poll_after_create e g w2) = Inr None \<longrightarrow>
            (\<forall>ls\<in>set (listings t). usable_uuid ls g = None)
            \<and> (length (listings t) = 10 \<or> lookup_uuid (last (listings t)) g = Inr (Some []))"
  proof
    assume "fst (poll_after_create e g w2) = Inr None"
    then consider (a) "fst ?loop = Inr None" | (b) "fst ?loop = Inr (Some [])"
      unfolding fs by (cases "fst ?loop"; cases "projr (fst ?loop)") (auto split: if_splits)
    then show "(\<forall>ls\<in>set (listings t). usable_uuid ls g = None)
            \<and> (length (listings t) = 10 \<or> lookup_uuid (last (listings t)) g = Inr (Some []))"
    proof cases
      case a
      with t(6) have len: "length (listings t) = 10" by simp
      then have ne: "listings t \<noteq> []" by auto
      with a t(5) have "lookup_uuid (last (listings t)) g = Inr None" by simp
      then have "usable_uuid (last (listings t)) g = None" by (simp add: usable_uuid_simps)
      with butlast_miss split_set[OF ne] len show ?thesis by auto
    next
      case b
      with t(5) have ne: "listings t \<noteq> []" by (auto split: if_splits)
      with b t(5) have l: "lookup_uuid (last (listings t)) g = Inr (Some [])" by simp
      then have "usable_uuid (last (listings t)) g = None" by (simp add: usable_uuid_simps)
      with butlast_miss split_set[OF ne] l show ?thesis by auto
    qed
  qed
  show ?thesis
    unfolding sn
    by (rule exI[of _ t]) (use t(1,2,3,4,7) some none in simp)
qed

text \<open>
  C6. \<open>group_uuid\<close> starts with one lookup in the live group listing \<open>L0\<close>. If it
  yields an identifier that is not empty, this is the result and nothing else happens.
  Otherwise, if the name is in \<open>GERRIT_SYSTEM_GROUPS\<close>, the table's identifier is the
  result and nothing else happens. Otherwise the group is created (unless the listing
  \<open>L1\<close> read for that purpose shows it), and the listing is polled at most 10 times, with
  a sleep of 1 second after every lookup that misses the group; the result is the
  identifier of the last listing polled. No identifier (\<open>None\<close>) is the result only if
  the first lookup yields none, the table has none and no listing polled yields one.
\<close>

theorem group_uuid_priority:
  "(let L0 = groups_reply e (length (trace w));
        r = fst (group_uuid e g w);
        t = new_events w (snd (group_uuid e g w))
    in take 1 t = [ListGroups L0]
       \<and> (\<forall>u. usable_uuid L0 g = Some u \<longrightarrow> r = Inr (Some u) \<and> t = [ListGroups L0])
       \<and> (\<forall>s. usable_uuid L0 g = None \<and> lookup_uuid L0 g \<noteq> Inl KeyError \<and> GERRIT_SYSTEM_GROUPS g = Some s
              \<longrightarrow> r = Inr (Some s) \<and> t = [ListGroups L0])
       \<and> (usable_uuid L0 g = None \<and> lookup_uuid L0 g \<noteq> Inl KeyError \<and> GERRIT_SYSTEM_GROUPS g = None
            \<longrightarrow> (\<exists>L1 cr poll.
                   t = [ListGroups L0, ListGroups L1] @ cr @ poll
                   \<and> (cr = [] \<and> lookup_uuid L1 g \<noteq> Inr None
                      \<or> cr = [CreateGroup g True] \<and> lookup_uuid L1 g = Inr None
                      \<or> cr = [CreateGroup g False] \<and> lookup_uuid L1 g = Inr None \<and> poll = []
                          \<and> r = Inl RemoteError)
                   \<and> length (listings poll) \<le> 10
                   \<and> (\<forall>ev\<in>set poll. (\<exists>ls. ev = ListGroups ls) \<or> ev = Sleep 1)
                   \<and> sleeps poll = replicate (length (filter (\<lambda>ls. lookup_uuid ls g = Inr None) (listings poll))) 1
                   \<and> (\<forall>ls\<in>set (butlast (listings poll)). lookup_uuid ls g = Inr None)
                   \<and> (\<forall>u. r = Inr (Some u) \<longrightarrow> listings poll \<noteq> [] \<and> usable_uuid (last (listings poll)) g = Some u)
                   \<and> (r = Inr None \<longrightarrow> (\<forall>ls\<in>set (listings poll). usable_uuid ls g = None)
                         \<and> (length (listings poll) = 10 \<or> lookup_uuid (last (listings poll)) g = Inr (Some [])))))
       \<and> (r = Inr None \<longrightarrow> usable_uuid L0 g = None \<and> GERRIT_SYSTEM_GROUPS g = None))"
proof -
  let ?L0 = "groups_reply e (length (trace w))"
  let ?w1 = "snd (groups_dict e w)"
  let ?a0 = "lookup_uuid ?L0 g"
  have tr1: "trace ?w1 = trace w @ [ListGroups ?L0]" by simp
  have ne1: "new_events w ?w1 = [ListGroups ?L0]" using tr1 by simp
  have key: "\<And>x. ?a0 = Inl x \<Longrightarrow> x = KeyError"
    by (auto simp: lookup_uuid_def split: option.splits)
  consider (err) x where "?a0 = Inl x"
    | (hit) u where "?a0 = Inr (Some u)" "u \<noteq> []"
    | (sys) s where "?a0 = Inr None \<or> ?a0 = Inr (Some [])" "GERRIT_SYSTEM_GROUPS g = Some s"
    | (new) "?a0 = Inr None \<or> ?a0 = Inr (Some [])" "GERRIT_SYSTEM_GROUPS g = None"
  proof (cases ?a0)
    case (Inl x) then show ?thesis using err by blast
  next
    case (Inr uuid)
    show ?thesis
    proof (cases "truthy_str uuid")
      case True
      then obtain u where "uuid = Some u" "u \<noteq> []" by (cases uuid) auto
      with Inr show ?thesis using hit by blast
    next
      case False
      then have "uuid = None \<or> uuid = Some []" by (cases uuid) auto
      with Inr have "?a0 = Inr None \<or> ?a0 = Inr (Some [])" by auto
      then show ?thesis using sys new by (cases "GERRIT_SYSTEM_GROUPS g") auto
    qed
  qed
  then show ?thesis
  proof cases
    case err
    then have eq: "group_uuid e g w = (Inl x, ?w1)"
      by (simp add: group_uuid_def get_group_uuid_1)
    show ?thesis
      unfolding Let_def eq fst_conv snd_conv ne1
      using err key[OF err] by (auto simp: usable_uuid_simps)
  next
    case hit
    then have eq: "group_uuid e g w = (Inr (Some u), ?w1)"
      by (simp add: group_uuid_def get_group_uuid_1)
    show ?thesis
      unfolding Let_def eq fst_conv snd_conv ne1
      using hit by (auto simp: usable_uuid_simps)
  next
    case sys
    then have eq: "group_uuid e g w = (Inr (Some s), ?w1)"
      by (auto simp: group_uuid_def get_group_uuid_1)
    show ?thesis
      unfolding Let_def eq fst_conv snd_conv ne1
      using sys by (auto simp: usable_uuid_simps)
  next
    case new
    let ?L1 = "groups_reply e (length (trace ?w1))"
    let ?w1' = "snd (groups_dict e ?w1)"
    have tr1': "trace ?w1' = trace w @ [ListGroups ?L0, ListGroups ?L1]" by simp
    have un: "usable_uuid ?L0 g = None" using new(1) by (auto simp: usable_uuid_simps)
    have nk: "?a0 \<noteq> Inl KeyError" using new(1) by auto
    have unfold: "group_uuid e g w =
        (case create_group e g [] [] [] ?w1 of
           (Inl x, w2) \<Rightarrow> (Inl x, w2)
         | (Inr u, w2) \<Rightarrow>
             (case get_group_uuid e g 10 w2 of
                (Inl x, w3) \<Rightarrow> (Inl x, w3)
              | (Inr uuid', w3) \<Rightarrow> if truthy_str uuid' then (Inr uuid', w3) else (Inr None, w3)))"
      using new by (auto simp: group_uuid_def get_group_uuid_1)
    have poll_case: "\<exists>L1 cr poll.
                   new_events w (snd (group_uuid e g w)) = [ListGroups ?L0, ListGroups L1] @ cr @ poll
                   \<and> (cr = [] \<and> lookup_uuid L1 g \<noteq> Inr None
                      \<or> cr = [CreateGroup g True] \<and> lookup_uuid L1 g = Inr None
                      \<or> cr = [CreateGroup g False] \<and> lookup_uuid L1 g = Inr None \<and> poll = []
                          \<and> fst (group_uuid e g w) = Inl RemoteError)
                   \<and> length (listings poll) \<le> 10
                   \<and> (\<forall>ev\<in>set poll. (\<exists>ls. ev = ListGroups ls) \<or> ev = Sleep 1)
                   \<and> sleeps poll = replicate (length (filter (\<lambda>ls. lookup_uuid ls g = Inr None) (listings poll))) 1
                   \<and> (\<forall>ls\<in>set (butlast (listings poll)). lookup_uuid ls g = Inr None)
                   \<and> (\<forall>u. fst (group_uuid e g w) = Inr (Some u) \<longrightarrow> listings poll \<noteq> [] \<and> usable_uuid (last (listings poll)) g = Some u)
                   \<and> (fst (group_uuid e g w) = Inr None \<longrightarrow> (\<forall>ls\<in>set (listings poll). usable_uuid ls g = None)
                         \<and> (length (listings poll) = 10 \<or> lookup_uuid (last (listings poll)) g = Inr (Some [])))"
    proof -
      have after_create: "?thesis"
        if cg: "create_group e g [] [] [] ?w1 = (Inr (), w2)"
          and tr2: "trace w2 = trace w @ [ListGroups ?L0, ListGroups ?L1] @ cr"
          and crs: "cr = [] \<and> lookup_uuid ?L1 g \<noteq> Inr None
                      \<or> cr = [CreateGroup g True] \<and> lookup_uuid ?L1 g = Inr None"
        for w2 cr
      proof -
        have eq: "group_uuid e g w = poll_after_create e g w2"
          unfolding unfold poll_after_create_def using cg by simp
        from poll_after_create_spec[of e g w2] obtain poll where
          p: "trace (snd (poll_after_create e g w2)) = trace w2 @ poll"
            "length (listings poll) \<le> 10"
            "\<forall>ev\<in>set poll. (\<exists>ls. ev = ListGroups ls) \<or> ev = Sleep 1"
            "sleeps poll = replicate (length (filter (\<lambda>ls. lookup_uuid ls g = Inr None) (listings poll))) 1"
            "\<forall>ls\<in>set (butlast (listings poll)). lookup_uuid ls g = Inr None"
            "\<forall>u. fst (poll_after_create e g w2) = Inr (Some u) \<longrightarrow>
                listings poll \<noteq> [] \<and> usable_uuid (last (listings poll)) g = Some u"
            "fst (poll_after_create e g w2) = Inr None \<longrightarrow>
                (\<forall>ls\<in>set (listings poll). usable_uuid ls g = None)
                \<and> (length (listings poll) = 10 \<or> lookup_uuid (last (listings poll)) g = Inr (Some []))"
          by blast
        have crs': "cr = [] \<and> lookup_uuid ?L1 g \<noteq> Inr None
                      \<or> cr = [CreateGroup g True] \<and> lookup_uuid ?L1 g = Inr None
                      \<or> cr = [CreateGroup g False] \<and> lookup_uuid ?L1 g = Inr None \<and> poll = []
                          \<and> fst (poll_after_create e g w2) = Inl RemoteError"
          using crs by blast
        have ne: "new_events w (snd (poll_after_create e g w2)) = [ListGroups ?L0, ListGroups ?L1] @ cr @ poll"
          using p(1) tr2 by simp
        show ?thesis
          unfolding eq ne
          apply (rule exI[of _ ?L1], rule exI[of _ cr], rule exI[of _ poll])
          using crs' p(2-7) by simp
      qed
      consider (present) "lookup_uuid ?L1 g \<noteq> Inr None"
        | (created) "lookup_uuid ?L1 g = Inr None" "createGroup e g ?w1' = (Inr (), log_event (CreateGroup g True) ?w1')"
        | (failed) "lookup_uuid ?L1 g = Inr None" "createGroup e g ?w1' = (Inl RemoteError, log_event (CreateGroup g False) ?w1')"
        using createGroup_cases[of e g ?w1'] by blast
      then show ?thesis
      proof cases
        case failed
        then have eq: "group_uuid e g w = (Inl RemoteError, log_event (CreateGroup g False) ?w1')"
          unfolding unfold by (simp add: create_group_plain lookup_uuid_None)
        have ne: "new_events w (log_event (CreateGroup g False) ?w1')
            = [ListGroups ?L0, ListGroups ?L1] @ [CreateGroup g False] @ []"
          by simp
        show ?thesis
          unfolding eq fst_conv snd_conv
          apply (rule exI[of _ ?L1], rule exI[of _ "[CreateGroup g False]"], rule exI[of _ "[]"])
          using failed(1) ne by simp
      next
        case present
        define w2 where "w2 = ?w1'"
        define cr :: "event list" where "cr = []"
        have cg: "create_group e g [] [] [] ?w1 = (Inr (), w2)"
          using present by (auto simp: create_group_plain lookup_uuid_None w2_def)
        have tr2: "trace w2 = trace w @ [ListGroups ?L0, ListGroups ?L1] @ cr"
          by (simp add: w2_def cr_def)
        have crs: "cr = [] \<and> lookup_uuid ?L1 g \<noteq> Inr None
                      \<or> cr = [CreateGroup g True] \<and> lookup_uuid ?L1 g = Inr None"
          using present by (simp add: cr_def)
        show ?thesis by (rule after_create[OF cg tr2 crs])
      next
        case created
        define w2 where "w2 = log_event (CreateGroup g True) ?w1'"
        define cr :: "event list" where "cr = [CreateGroup g True]"
        have cg: "create_group e g [] [] [] ?w1 = (Inr (), w2)"
          using created by (auto simp: create_group_plain lookup_uuid_None w2_def)
        have tr2: "trace w2 = trace w @ [ListGroups ?L0, ListGroups ?L1] @ cr"
          by (simp add: w2_def cr_def)
        have crs: "cr = [] \<and> lookup_uuid ?L1 g \<noteq> Inr None
                      \<or> cr = [CreateGroup g True] \<and> lookup_uuid ?L1 g = Inr None"
          using created by (simp add: cr_def)
        show ?thesis by (rule after_create[OF cg tr2 crs])
      qed
    qed
    obtain L1 cr poll where
      t: "new_events w (snd (group_uuid e g w)) = [ListGroups ?L0, ListGroups L1] @ cr @ poll"
      using poll_case by blast
    have tk: "take 1 (new_events w (snd (group_uuid e g w))) = [ListGroups ?L0]"
      unfolding t by simp
    show ?thesis
      unfolding Let_def
      using poll_case un nk new(2) tk by simp
  qed
qed

section \<open>Project creation\<close>

lemma projects_simps [simp]:
  "fst (projects w) = gerrit_projects w"
  "trace (snd (projects w)) = trace w @ [ListProjects]"
  "gerrit_projects (snd (projects w)) = gerrit_projects w"
  "project_cache (snd (projects w)) = project_cache w"
  by (simp_all add: projects_def)

lemma cache_set_simps [simp]:
  "trace (cache_set sec k v w) = trace w"
  "gerrit_projects (cache_set sec k v w) = gerrit_projects w"
  by (simp_all add: cache_set_def split: option.splits)

lemma cache_set_cache:
  "project_cache w (project_name sec) = Some r \<Longrightarrow>
   project_cache (cache_set sec k v w) = (project_cache w)(project_name sec \<mapsto> r(k \<mapsto> v))"
  by (simp add: cache_set_def)

lemma init_simps [simp]:
  "trace (JeepybProjectConfig_init sec w) = trace w"
  "gerrit_projects (JeepybProjectConfig_init sec w) = gerrit_projects w"
  "project_cache (JeepybProjectConfig_init sec w) (project_name sec) =
     Some (case project_cache w (project_name sec) of None \<Rightarrow> Map.empty | Some r \<Rightarrow> r)"
  by (simp_all add: JeepybProjectConfig_init_def split: option.splits)

text \<open>
  C10. For a project that the review service lists, \<open>create_gerrit_project\<close> only
  reads the project list (no creation call), sets \<open>project-created\<close> to true and
  returns \<open>False\<close>; after a loss of the cache the creation step of the Driver heals the
  flag in the same way, without creating the project again. For a project that the review
  service does not list, it returns \<open>True\<close> after one creation call that succeeded, and
  raises when the call failed.
\<close>

theorem create_gerrit_project_existing:
  "(project_name sec \<in> set (gerrit_projects w) \<longrightarrow>
      fst (create_gerrit_project e sec (JeepybProjectConfig_init sec w)) = Inr False
      \<and> new_events w (snd (create_gerrit_project e sec (JeepybProjectConfig_init sec w))) = [ListProjects]
      \<and> gerrit_projects (snd (create_gerrit_project e sec (JeepybProjectConfig_init sec w))) = gerrit_projects w
      \<and> cache_get sec ''project-created'' (snd (create_gerrit_project e sec (JeepybProjectConfig_init sec w)))
          = Some (CBool True)
      \<and> (project_cache w (project_name sec) = None \<longrightarrow>
            fst (main_create_project e sec (JeepybProjectConfig_init sec w))
            \<and> new_events w (snd (main_create_project e sec (JeepybProjectConfig_init sec w))) = [ListProjects]
            \<and> already_created sec (snd (main_create_project e sec (JeepybProjectConfig_init sec w)))))
   \<and> (project_name sec \<notin> set (gerrit_projects w) \<longrightarrow>
        (fst (create_gerrit_project e sec (JeepybProjectConfig_init sec w)) = Inr True
         \<and> new_events w (snd (create_gerrit_project e sec (JeepybProjectConfig_init sec w)))
             = [ListProjects, ListProjects, CreateProject (project_name sec) True])
      \<or> (fst (create_gerrit_project e sec (JeepybProjectConfig_init sec w)) = Inl RemoteError
         \<and> new_events w (snd (create_gerrit_project e sec (JeepybProjectConfig_init sec w)))
             = [ListProjects, ListProjects, CreateProject (project_name sec) False]))"
proof -
  let ?w = "JeepybProjectConfig_init sec w"
  obtain r where r: "project_cache ?w (project_name sec) = Some r" by simp
  have ex: "project_name sec \<in> set (gerrit_projects w) \<Longrightarrow>
      create_gerrit_project e sec ?w = (Inr False, cache_set sec ''project-created'' (CBool True) (snd (projects ?w)))"
    by (simp add: create_gerrit_project_def split_def Let_def)
  have a: "project_name sec \<in> set (gerrit_projects w) \<Longrightarrow>
      fst (create_gerrit_project e sec ?w) = Inr False
      \<and> new_events w (snd (create_gerrit_project e sec ?w)) = [ListProjects]
      \<and> gerrit_projects (snd (create_gerrit_project e sec ?w)) = gerrit_projects w
      \<and> cache_get sec ''project-created'' (snd (create_gerrit_project e sec ?w)) = Some (CBool True)"
    using r by (simp add: ex cache_get_set)
  have b: "project_name sec \<in> set (gerrit_projects w) \<Longrightarrow> project_cache w (project_name sec) = None \<Longrightarrow>
            fst (main_create_project e sec ?w)
            \<and> new_events w (snd (main_create_project e sec ?w)) = [ListProjects]
            \<and> already_created sec (snd (main_create_project e sec ?w))"
  proof -
    assume p: "project_name sec \<in> set (gerrit_projects w)" and n: "project_cache w (project_name sec) = None"
    have nc: "\<not> already_created sec ?w"
      using n by (simp add: already_created_def cache_get_def)
    let ?w1 = "cache_set sec ''project-created'' (CBool True) (snd (projects ?w))"
    have r1: "project_cache ?w1 (project_name sec) = Some (r(''project-created'' \<mapsto> CBool True))"
      using r by (simp add: cache_set_cache)
    have eq: "main_create_project e sec ?w = (True, cache_set sec ''project-created'' (CBool True) ?w1)"
      using nc by (simp add: main_create_project_def ex[OF p])
    show ?thesis
      unfolding eq using r1 by (simp add: already_created_def cache_get_set)
  qed
  have c: "project_name sec \<notin> set (gerrit_projects w) \<Longrightarrow>
        (fst (create_gerrit_project e sec ?w) = Inr True
         \<and> new_events w (snd (create_gerrit_project e sec ?w))
             = [ListProjects, ListProjects, CreateProject (project_name sec) True])
      \<or> (fst (create_gerrit_project e sec ?w) = Inl RemoteError
         \<and> new_events w (snd (create_gerrit_project e sec ?w))
             = [ListProjects, ListProjects, CreateProject (project_name sec) False])"
    by (simp add: create_gerrit_project_def create_project_def createProject_def split_def Let_def)
  from a b c show ?thesis by blast
qed

text \<open>
  C3, as amended. For a project not previously created (per cache), the creation step of
  the Driver ends in one of two ways: the project exists in the review service and its
  cache record has \<open>project-created\<close> set to true, nothing else changed; or the creation
  failed, the rest of the run is skipped for the project, the project list of the review
  service is as it was, without the project, and its cache record has \<open>project-created\<close>
  set to false, nothing else changed.
\<close>

theorem main_create_project_outcome:
  assumes rec: "project_cache w (project_name sec) = Some record"
      and nc: "\<not> already_created sec w"
  shows "(fst (main_create_project e sec w)
           \<and> project_name sec \<in> set (gerrit_projects (snd (main_create_project e sec w)))
           \<and> project_cache (snd (main_create_project e sec w))
               = (project_cache w)(project_name sec \<mapsto> record(''project-created'' \<mapsto> CBool True)))
       \<or> (\<not> fst (main_create_project e sec w)
           \<and> project_name sec \<notin> set (gerrit_projects (snd (main_create_project e sec w)))
           \<and> gerrit_projects (snd (main_create_project e sec w)) = gerrit_projects w
           \<and> project_cache (snd (main_create_project e sec w))
               = (project_cache w)(project_name sec \<mapsto> record(''project-created'' \<mapsto> CBool False)))"
proof (cases "project_name sec \<in> set (gerrit_projects w)")
  case True
  then have "create_gerrit_project e sec w
      = (Inr False, cache_set sec ''project-created'' (CBool True) (snd (projects w)))"
    by (simp add: create_gerrit_project_def split_def Let_def)
  then show ?thesis
    using nc rec True by (simp add: main_create_project_def cache_set_cache)
next
  case False
  show ?thesis
  proof (cases "remote_ok e (Suc (Suc (length (trace w))))")
    case ok: True
    then show ?thesis
      using nc rec False
      by (simp add: main_create_project_def create_gerrit_project_def create_project_def
          createProject_def split_def Let_def cache_set_cache)
  next
    case fail: False
    then show ?thesis
      using nc rec False
      by (simp add: main_create_project_def create_gerrit_project_def create_project_def
          createProject_def split_def Let_def cache_set_cache)
  qed
qed

section \<open>Integrity check\<close>

text \<open>
  C7. \<open>fsck_repo\<close> runs \<open>git fsck --full\<close> once. It raises exactly when the exit
  status of the process is not 0 or its output contains \<open>zeroPaddedFilemode\<close>, and
  otherwise returns nothing. The output is the one of the process: stripping it neither
  hides nor adds the warning.
\<close>

theorem fsck_repo_raises_iff:
  "((\<exists>x. fst (fsck_repo e self w) = Inl x) \<longleftrightarrow>
      fst (proc_reply e (length (trace w))) \<noteq> 0
      \<or> str_in ''zeroPaddedFilemode'' (snd (proc_reply e (length (trace w)))))
   \<and> (fst (fsck_repo e self w) = Inl (Exception ''git fsck failed not importing'')
       \<or> fst (fsck_repo e self w) = Inr ())
   \<and> new_events w (snd (fsck_repo e self w)) =
       [Run (git_argv (co_checkout_path self) [''fsck'', ''--full''])
          (fst (proc_reply e (length (trace w)))) (strip (snd (proc_reply e (length (trace w)))))]"
proof -
  have "str_in ''zeroPaddedFilemode'' (strip (snd (proc_reply e (length (trace w)))))
      \<longleftrightarrow> str_in ''zeroPaddedFilemode'' (snd (proc_reply e (length (trace w))))"
    by (rule str_in_strip) (simp_all add: is_space_def)
  then show ?thesis
    by (auto simp: fsck_repo_def split_def Let_def)
qed

section \<open>Fresh initialisation of a working copy\<close>

lemma run_command_simps [simp]:
  "trace (snd (run_command e cmd w)) =
     trace w @ [Run cmd (fst (proc_reply e (length (trace w)))) (strip (snd (proc_reply e (length (trace w)))))]"
  "gerrit_projects (snd (run_command e cmd w)) = gerrit_projects w"
  by (simp_all add: run_command_def run_command_status_def split_def Let_def)

lemma GerritCheckout_sel [simp]:
  "co_project (GerritCheckout project path upstream api) = project"
  "co_checkout_path (GerritCheckout project path upstream api) = path"
  "co_upstream (GerritCheckout project path upstream api) = upstream"
  "co_gerrit_api (GerritCheckout project path upstream api) = api"
  "co_remote_url (GerritCheckout project path upstream api) = get_remote_url api project"
  "project_git (GerritCheckout project path upstream api) = project @ ''.git''"
  by (simp_all add: GerritCheckout_def)

lemma change_user_ok:
  assumes "py_rsplit 2 '' <'' (gitid (co_gerrit_api self)) = [name, email]"
  shows "fst (change_user e self w) = Inr ()"
    and "\<exists>s1 o1 s2 o2. trace (snd (change_user e self w)) = trace w @
       [Run (git_argv (co_checkout_path self) [''config'', ''user.name'', name]) s1 o1,
        Run (git_argv (co_checkout_path self) [''config'', ''user.email'', rstrip_char (CHR ''>'') email]) s2 o2]"
  using assms by (simp_all add: change_user_def split_def Let_def)

text \<open>
  C9, as amended. For a project that the review service does not list and that has no
  upstream, and a committer identity of the form \<open>name <email>\<close>, \<open>make_local_copy\<close>
  runs \<open>git init\<close>, sets the user, adds the remote \<open>origin\<close>, writes the descriptor file
  \<open>.gitreview\<close> (the section header and the lines for the host, the port and the
  project with the suffix \<open>.git\<close>), adds and commits it, and returns exactly
  \<open>push %s HEAD:refs/heads/master\<close>.
\<close>

theorem make_local_copy_fresh_init:
  assumes absent: "project \<notin> set (gerrit_projects w)"
      and no_upstream: "upstream = None \<or> upstream = Some []"
      and committer: "py_rsplit 2 '' <'' (gitid api) = [name, email]"
  shows "fst (make_local_copy e (GerritCheckout project path upstream api) w)
           = Inr (Some ''push %s HEAD:refs/heads/master'')
     \<and> (\<exists>pre r1 o1 r2 o2 r3 o3 r4 o4 r5 o5 r6 o6.
           new_events w (snd (make_local_copy e (GerritCheckout project path upstream api) w)) =
             pre @
             [ListProjects,
              Run [''git'', ''init'', path] r1 o1,
              Run (git_argv path [''config'', ''user.name'', name]) r2 o2,
              Run (git_argv path [''config'', ''user.email'', rstrip_char (CHR ''>'') email]) r3 o3,
              Run (git_argv path [''remote'', ''add'', ''origin'', get_remote_url api project]) r4 o4,
              WriteFile (path_join path ''.gitreview'')
                (''[gerrit]'' @ [CHR 0x0A] @ ''host='' @ host api @ [CHR 0x0A]
                 @ ''port='' @ str_int (port api) @ [CHR 0x0A]
                 @ ''project='' @ project @ ''.git'' @ [CHR 0x0A]),
              Run (git_argv path [''add'', ''.gitreview'']) r5 o5,
              Run (git_argv path (commit_cmd ''Added .gitreview'' (gitid api))) r6 o6]
           \<and> (pre = [PathExists (dirname path) True]
                \<or> pre = [PathExists (dirname path) False, MakeDirs (dirname path)]))"
proof -
  let ?self = "GerritCheckout project path upstream api"
  let ?d = "dirname path"
  let ?w0 = "snd (path_exists e ?d w)"
  let ?w1 = "if \<not> fst (path_exists e ?d w) then log_event (MakeDirs ?d) ?w0 else ?w0"
  let ?w2 = "snd (projects ?w1)"
  note sel = GerritCheckout_sel
  have gp: "gerrit_projects ?w1 = gerrit_projects w"
    by (simp add: path_exists_def Let_def)
  have eq: "make_local_copy e ?self w = fresh_init e ?self ?w2"
    using absent no_upstream gp
    by (auto simp: make_local_copy_def sel split_def Let_def)
  have pre: "\<exists>pre. trace ?w2 = trace w @ pre @ [ListProjects]
      \<and> (pre = [PathExists ?d True] \<or> pre = [PathExists ?d False, MakeDirs ?d])"
    by (auto simp: path_exists_def Let_def)
  then obtain pre where pre: "trace ?w2 = trace w @ pre @ [ListProjects]"
      "pre = [PathExists ?d True] \<or> pre = [PathExists ?d False, MakeDirs ?d]"
    by blast
  let ?w3 = "snd (run_command e [''git'', ''init'', path] ?w2)"
  have cm: "py_rsplit 2 '' <'' (gitid (co_gerrit_api ?self)) = [name, email]"
    using committer by (simp add: sel)
  from change_user_ok[OF cm, of e ?w3] obtain s1 o1 s2 o2 where
    cu: "fst (change_user e ?self ?w3) = Inr ()"
      "trace (snd (change_user e ?self ?w3)) = trace ?w3 @
       [Run (git_argv path [''config'', ''user.name'', name]) s1 o1,
        Run (git_argv path [''config'', ''user.email'', rstrip_char (CHR ''>'') email]) s2 o2]"
    unfolding sel by blast
  obtain w4 where w4: "change_user e ?self ?w3 = (Inr (), w4)"
    using cu(1) by (cases "change_user e ?self ?w3") auto
  have tr4: "trace w4 = trace w @ pre @ [ListProjects,
       Run [''git'', ''init'', path] (fst (proc_reply e (length (trace ?w2))))
          (strip (snd (proc_reply e (length (trace ?w2))))),
       Run (git_argv path [''config'', ''user.name'', name]) s1 o1,
       Run (git_argv path [''config'', ''user.email'', rstrip_char (CHR ''>'') email]) s2 o2]"
    using cu(2) w4 pre(1) by simp
  have res: "fst (fresh_init e ?self ?w2) = Inr (Some ''push %s HEAD:refs/heads/master'')"
    using w4 by (simp add: fresh_init_def sel split_def Let_def)
  have "\<exists>r4 o4 r5 o5 r6 o6. trace (snd (fresh_init e ?self ?w2)) = trace w4 @
      [Run (git_argv path [''remote'', ''add'', ''origin'', get_remote_url api project]) r4 o4,
       WriteFile (path_join path ''.gitreview'')
                (''[gerrit]'' @ [CHR 0x0A] @ ''host='' @ host api @ [CHR 0x0A]
                 @ ''port='' @ str_int (port api) @ [CHR 0x0A]
                 @ ''project='' @ project @ ''.git'' @ [CHR 0x0A]),
       Run (git_argv path [''add'', ''.gitreview'']) r5 o5,
       Run (git_argv path (commit_cmd ''Added .gitreview'' (gitid api))) r6 o6]"
    using w4 by (simp add: fresh_init_def sel split_def Let_def GITREVIEW_TEMPLATE_def)
  then obtain r4 o4 r5 o5 r6 o6 where
    tr: "trace (snd (fresh_init e ?self ?w2)) = trace w4 @
      [Run (git_argv path [''remote'', ''add'', ''origin'', get_remote_url api project]) r4 o4,
       WriteFile (path_join path ''.gitreview'')
                (''[gerrit]'' @ [CHR 0x0A] @ ''host='' @ host api @ [CHR 0x0A]
                 @ ''port='' @ str_int (port api) @ [CHR 0x0A]
                 @ ''project='' @ project @ ''.git'' @ [CHR 0x0A]),
       Run (git_argv path [''add'', ''.gitreview'']) r5 o5,
       Run (git_argv path (commit_cmd ''Added .gitreview'' (gitid api))) r6 o6]"
    by blast
  have ne: "new_events w (snd (fresh_init e ?self ?w2)) = pre @ [ListProjects,
       Run [''git'', ''init'', path] (fst (proc_reply e (length (trace ?w2))))
          (strip (snd (proc_reply e (length (trace ?w2))))),
       Run (git_argv path [''config'', ''user.name'', name]) s1 o1,
       Run (git_argv path [''config'', ''user.email'', rstrip_char (CHR ''>'') email]) s2 o2,
       Run (git_argv path [''remote'', ''add'', ''origin'', get_remote_url api project]) r4 o4,
       WriteFile (path_join path ''.gitreview'')
                (''[gerrit]'' @ [CHR 0x0A] @ ''host='' @ host api @ [CHR 0x0A]
                 @ ''port='' @ str_int (port api) @ [CHR 0x0A]
                 @ ''project='' @ project @ ''.git'' @ [CHR 0x0A]),
       Run (git_argv path [''add'', ''.gitreview'']) r5 o5,
       Run (git_argv path (commit_cmd ''Added .gitreview'' (gitid api))) r6 o6]"
    using tr tr4 by simp
  show ?thesis
    unfolding eq using res ne pre(2) by blast
qed

section \<open>The model at concrete inputs\<close>

lemmas co_defs = GerritCheckout_def change_user_def clone_from_gerrit_def import_upstream_def
  fresh_init_def make_local_copy_def fsck_repo_def dirname_def rstrip_char_def py_rsplit_def
  GITREVIEW_TEMPLATE_def

lemmas group_defs = parse_groups_def add_group_unfold group_dict_of_def group_column_names_def
  groups_dict_def create_group_def create_groups_def main_process_groups_def lookup_uuid_def
  usable_uuid_def

lemmas env_defs = env_all_ok_def env_cleanup_fails_def env_unreachable_def env_zero_padded_def
  env_clone_fails_def env_push_fails_def env_create_fails_def

lemmas more_data_defs = api_no_email_def co_no_email_def mu0_def co0_def co_upstream0_def w_listed_def idle_body_def group_index0_def

lemma py_split_numeral:
  "py_split (numeral k) sep s =
     (case split_first sep s of None \<Rightarrow> [s] | Some (a, b) \<Rightarrow> a # py_split (pred_numeral k) sep b)"
  by (simp add: numeral_eq_Suc)

lemma get_group_uuid_loop_numeral:
  "get_group_uuid_loop e grp retries (numeral k) w =
     (let (all_groups, w1) = groups_dict e w
      in case all_groups grp of
           Some d \<Rightarrow> (case d ''uuid'' of None \<Rightarrow> (Inl KeyError, w1) | Some u \<Rightarrow> (Inr (Some u), w1))
         | None \<Rightarrow> get_group_uuid_loop e grp retries (pred_numeral k) (if retries > 1 then sleep 1 w1 else w1))"
  by (simp add: numeral_eq_Suc)

lemmas eval_simps = run_simps co_defs group_defs env_defs more_data_defs py_split_numeral
  get_group_uuid_loop_numeral

text \<open>
  C8, at the failing input. The review service lists the project, an upstream is
  configured, and the clone from the review service exits with status 128.
  \<open>run_command\<close> raises nothing on a non-zero exit status, so the \<open>except\<close> branch is not
  taken: \<open>make_local_copy\<close> returns \<open>None\<close> (no push specification) and never clones the
  upstream.
\<close>

theorem clone_failure_no_fallback:
  "fst (make_local_copy env_clone_fails co_upstream0 w_listed) = Inr None
   \<and> runs_of [''git'', ''clone'', ''ssh://jeepyb@review.example.org:29418/org/p'', ''/cache/org/p'']
        (trace (snd (make_local_copy env_clone_fails co_upstream0 w_listed))) = [(128, ''fatal'')]
   \<and> runs_of [''git'', ''clone'', ''https://up/p.git'', ''/cache/org/p'']
        (trace (snd (make_local_copy env_clone_fails co_upstream0 w_listed))) = []"
  by (simp add: eval_simps)

text \<open>
  C4, at the failing input. A project with a groups file runs through "Process Groups"
  twice, the second run starting from the cache the first one left, with no change to the
  files. The first run stores the whole dictionary of matching files under
  \<open>groups-sha\<close>, which is equal to no hash, so the second run calls
  \<open>create_groups\<close> again and adds the members again.
\<close>

theorem groups_reprocessed_on_second_run:
  "cache_get sec0 ''groups-sha'' (snd (main_process_groups env_all_ok False group_index0 sec0 world1))
     = Some (CDict [(''/cfg/groups/org/p.yaml'', ''abc'')])
   \<and> new_events (snd (main_process_groups env_all_ok False group_index0 sec0 world1))
        (snd (main_process_groups env_all_ok False group_index0 sec0
               (snd (main_process_groups env_all_ok False group_index0 sec0 world1))))
     = [IsFile ''/cfg/groups/org/p.yaml'' True, ReadYaml ''/cfg/groups/org/p.yaml'',
        ListGroups [''devs'' @ [CHR 0x09] @ ''uuid-1''], RestAddMembers ''devs'' [''a@x.org'']]"
  by (simp add: eval_simps new_events_def)

text \<open>
  C1 as stated fails: the project had no cached \<open>acl-sha\<close>, the push to
  \<open>refs/meta/config\<close> exits with status 1, and the Driver sets \<open>acl-sha\<close> to the new
  hash all the same.
\<close>

theorem hash_updated_after_failed_push_counterexample:
  "cache_get sec0 ''acl-sha'' world1 = None
   \<and> runs_of (git_argv ''/cache/org/p'' [''push'', ''ssh://jeepyb@review.example.org:29418/org/p'', ''HEAD:refs/meta/config''])
        (trace (snd (main_process_acl env_push_fails False acl_index0 sec0 api0 world1))) = [(1, [])]
   \<and> cache_get sec0 ''acl-sha'' (snd (main_process_acl env_push_fails False acl_index0 sec0 api0 world1))
       = Some (CStr ''abc'')"
  by (simp add: eval_simps)

text \<open>
  C1 as amended, at a concrete input: the push of the metadata fails, the flow returns,
  and the cached hash is the new one.
\<close>

theorem hash_updated_when_flow_returns_witness:
  "cache_get sec0 ''acl-sha''
     (snd (main_acl_loop env_push_fails sec0 api0 [(''/cfg/acls/org/p.config'', ''abc'')] world1))
     = Some (CStr ''abc'')"
proof -
  have h1: "project_cache world1 (project_name sec0) = Some Map.empty"
    by (simp add: world1_def world0_def sec0_def JeepybProjectConfig_init_def)
  have h2: "cache_get sec0 ''acl-sha'' world1 \<noteq> Some (CStr ''abc'')"
    by (simp add: cache_get_def h1)
  have h3: "fst (process_acls env_push_fails ''/cfg/acls/org/p.config'' sec0 api0 world1) = Inr ()"
    by (simp add: eval_simps)
  from hash_updated_when_flow_returns[OF h1, of env_push_fails "''/cfg/acls/org/p.config''" api0 "''abc''"]
    h2 h3
  show ?thesis by simp
qed

text \<open>
  C2 as stated fails: the body succeeds, the push has nothing to do, and the checkout of
  the recorded branch \<open>master\<close> and the deletion of \<open>config\<close> exit with status 1.
  The transaction ends without error with the working copy on the branch \<open>config\<close>.
\<close>

theorem meta_transaction_restore_counterexample:
  "fst (meta_enter env_cleanup_fails mu0 world0) = Inr (mu0\<lparr>current_head := ''master''\<rparr>)
   \<and> fst (with_meta_updater env_cleanup_fails mu0 idle_body world0) = Inr ()
   \<and> current_branch (repos (snd (with_meta_updater env_cleanup_fails mu0 idle_body world0)) ''/cache/org/p'') = ''config''
   \<and> ''config'' \<in> set (branches (repos (snd (with_meta_updater env_cleanup_fails mu0 idle_body world0)) ''/cache/org/p''))"
  by (simp add: eval_simps)

text \<open>
  C2 as amended, at a concrete input: every command succeeds; the working copy is back
  on \<open>master\<close> and has no branch \<open>config\<close>.
\<close>

theorem meta_transaction_cleanup_witness:
  "current_branch (repos (snd (with_meta_updater env_all_ok mu0 idle_body world0)) ''/cache/org/p'') = ''master''
   \<and> ''config'' \<notin> set (branches (repos (snd (with_meta_updater env_all_ok mu0 idle_body world0)) ''/cache/org/p''))"
proof -
  have fe: "fst (meta_enter env_all_ok mu0 world0) = Inr (mu0\<lparr>current_head := ''master''\<rparr>)"
    by (simp add: eval_simps)
  have en: "meta_enter env_all_ok mu0 world0 =
      (Inr (mu0\<lparr>current_head := ''master''\<rparr>), snd (meta_enter env_all_ok mu0 world0))"
    using fe by (simp add: prod_eq_iff)
  have p: "mu_checkout_path mu0 = ''/cache/org/p''"
    by (simp add: mu0_def meta_updater_def GerritMetaUpdater_def)
  have last2:
    "drop (length (trace (snd (with_meta_updater env_all_ok mu0 idle_body world0))) - 2)
          (trace (snd (with_meta_updater env_all_ok mu0 idle_body world0)))
       = [Run (git_argv ''/cache/org/p'' [''checkout'', ''master'']) 0 ''project.config'',
          Run (git_argv ''/cache/org/p'' [''branch'', ''-D'', ''config'']) 0 ''project.config'']"
    by (simp add: eval_simps)
  from meta_transaction_cleanup[OF en, of idle_body] last2
  show ?thesis unfolding p by simp
qed

text \<open>
  C3 as stated fails: the cache record of the project has no field
  \<open>project-created\<close>, the creation call fails, and afterwards the record holds
  \<open>project-created\<close> = false. The cache is not untouched.
\<close>

theorem create_failure_writes_cache_counterexample:
  "cache_get sec0 ''project-created'' world1 = None
   \<and> \<not> fst (main_create_project env_create_fails sec0 world1)
   \<and> ''org/p'' \<notin> set (gerrit_projects (snd (main_create_project env_create_fails sec0 world1)))
   \<and> cache_get sec0 ''project-created'' (snd (main_create_project env_create_fails sec0 world1))
       = Some (CBool False)"
  by (simp add: eval_simps main_create_project_def create_gerrit_project_def already_created_def)

text \<open>
  C3 as amended, at a concrete input: the creation call fails.
\<close>

theorem main_create_project_outcome_witness:
  "\<not> fst (main_create_project env_create_fails sec0 world1)
   \<and> project_cache (snd (main_create_project env_create_fails sec0 world1)) ''org/p''
       = Some [''project-created'' \<mapsto> CBool False]"
proof -
  have h1: "project_cache world1 (project_name sec0) = Some Map.empty"
    by (simp add: world1_def world0_def sec0_def JeepybProjectConfig_init_def)
  have h2: "\<not> already_created sec0 world1"
    by (simp add: already_created_def cache_get_def h1)
  have h3: "\<not> fst (main_create_project env_create_fails sec0 world1)"
    by (simp add: eval_simps main_create_project_def create_gerrit_project_def already_created_def)
  have n: "project_name sec0 = ''org/p''" by (simp add: sec0_def)
  from main_create_project_outcome[OF h1 h2, of env_create_fails] h3
  show ?thesis unfolding n by simp
qed

text \<open>
  C5, at two concrete inputs: a remote that is never reachable (all 10 fetches fail and
  the operation raises \<open>FetchConfigException\<close>), and a remote where every command
  succeeds at the first attempt (the operation returns without error).
\<close>

theorem fetch_meta_config_polling_witness:
  "fst (fetch_meta_config env_unreachable mu0 world0) = Inl FetchConfigException
   \<and> fst (fetch_meta_config env_all_ok mu0 world0) = Inr ()"
proof -
  have h: "length (runs_of (git_argv (mu_checkout_path mu0) (fetch_cmd mu0))
              (new_events world0 (snd (fetch_meta_config env_unreachable mu0 world0)))) = 10
        \<and> \<not> list_ex (\<lambda>x. fst x = 0)
              (runs_of (git_argv (mu_checkout_path mu0) (fetch_cmd mu0))
                 (new_events world0 (snd (fetch_meta_config env_unreachable mu0 world0))))"
    by (simp add: eval_simps new_events_def)
  have k: "new_events world0 (snd (fetch_meta_config env_all_ok mu0 world0)) =
      [Run (git_argv (mu_checkout_path mu0) (fetch_cmd mu0)) 0 ''master'',
       Run (git_argv (mu_checkout_path mu0) update_cmd) 0 ''project.config'',
       Run (git_argv (mu_checkout_path mu0) ls_files_cmd) 0 ''project.config'',
       Run (git_argv (mu_checkout_path mu0) checkout_config_cmd) 0 ''project.config'']"
    by (simp add: eval_simps new_events_def)
  have p: "probe_ok (0, ''project.config'')"
    by (simp add: probe_ok_def strip_def is_space_def)
  from fetch_meta_config_polling[of env_unreachable mu0 world0] h
  have a: "fst (fetch_meta_config env_unreachable mu0 world0) = Inl FetchConfigException"
    by (simp add: Let_def)
  from fetch_meta_config_polling[of env_all_ok mu0 world0]
  have "fst (fetch_meta_config env_all_ok mu0 world0) = Inr () \<longleftrightarrow>
     fst (last (runs_of (git_argv (mu_checkout_path mu0) (fetch_cmd mu0))
        (new_events world0 (snd (fetch_meta_config env_all_ok mu0 world0))))) = 0
     \<and> runs_of (git_argv (mu_checkout_path mu0) ls_files_cmd)
          (new_events world0 (snd (fetch_meta_config env_all_ok mu0 world0))) \<noteq> []
     \<and> probe_ok (last (runs_of (git_argv (mu_checkout_path mu0) ls_files_cmd)
          (new_events world0 (snd (fetch_meta_config env_all_ok mu0 world0)))))
     \<and> (\<exists>out. runs_of (git_argv (mu_checkout_path mu0) checkout_config_cmd)
          (new_events world0 (snd (fetch_meta_config env_all_ok mu0 world0))) = [(0, out)])"
    unfolding Let_def by blast
  then have b: "fst (fetch_meta_config env_all_ok mu0 world0) = Inr ()"
    unfolding k using p by simp
  from a b show ?thesis by simp
qed

text \<open>
  C6, at concrete inputs: a group the live listing shows, and a system group that it
  does not show.
\<close>

theorem group_uuid_priority_witness:
  "fst (group_uuid env_all_ok ''devs'' world0) = Inr (Some ''uuid-1'')
   \<and> fst (group_uuid env_all_ok ''Anonymous Users'' world0) = Inr (Some ''global:Anonymous-Users'')"
proof -
  have h1: "usable_uuid (groups_reply env_all_ok (length (trace world0))) ''devs'' = Some ''uuid-1''"
    by (simp add: eval_simps)
  have h2: "usable_uuid (groups_reply env_all_ok (length (trace world0))) ''Anonymous Users'' = None
      \<and> lookup_uuid (groups_reply env_all_ok (length (trace world0))) ''Anonymous Users'' \<noteq> Inl KeyError
      \<and> GERRIT_SYSTEM_GROUPS ''Anonymous Users'' = Some ''global:Anonymous-Users''"
    by (simp add: eval_simps GERRIT_SYSTEM_GROUPS_def)
  from group_uuid_priority[where e = env_all_ok and w = world0 and g = "''devs''"] h1
  have a: "fst (group_uuid env_all_ok ''devs'' world0) = Inr (Some ''uuid-1'')"
    by (simp add: Let_def)
  from group_uuid_priority[where e = env_all_ok and w = world0 and g = "''Anonymous Users''"] h2
  have b: "fst (group_uuid env_all_ok ''Anonymous Users'' world0) = Inr (Some ''global:Anonymous-Users'')"
    by (simp add: Let_def)
  from a b show ?thesis by simp
qed

text \<open>
  C7, at a concrete input: the exit status is 0 and the output contains the warning; the
  repository is rejected.
\<close>

theorem fsck_repo_raises_iff_witness:
  "fst (proc_reply env_zero_padded (length (trace world0))) = 0
   \<and> fst (fsck_repo env_zero_padded co0 world0) = Inl (Exception ''git fsck failed not importing'')"
proof -
  have h0: "fst (proc_reply env_zero_padded (length (trace world0))) = 0"
    by (simp add: env_defs)
  have h: "str_in ''zeroPaddedFilemode'' (snd (proc_reply env_zero_padded (length (trace world0))))"
    by (simp add: env_defs)
  from fsck_repo_raises_iff[of env_zero_padded co0 world0] h h0
  show ?thesis by auto
qed

text \<open>
  C9 as amended, at a concrete input.
\<close>

theorem make_local_copy_fresh_init_witness:
  "fst (make_local_copy env_all_ok co0 world0) = Inr (Some ''push %s HEAD:refs/heads/master'')"
proof -
  have absent: "''org/p'' \<notin> set (gerrit_projects world0)"
    by (simp add: world0_def)
  have committer: "py_rsplit 2 '' <'' (gitid api0) = [''Project Creator'', ''infra@example.org>'']"
    by (simp add: api0_def py_rsplit_def py_split_numeral)
  from make_local_copy_fresh_init[OF absent _ committer, of None env_all_ok "''/cache/org/p''"]
  show ?thesis by (simp add: co0_def)
qed

text \<open>
  C10, at a concrete input: the review service lists \<open>org/p\<close> and the cache is empty.
\<close>

theorem create_gerrit_project_existing_witness:
  "fst (create_gerrit_project env_all_ok sec0 (JeepybProjectConfig_init sec0 w_listed)) = Inr False
   \<and> cache_get sec0 ''project-created''
        (snd (create_gerrit_project env_all_ok sec0 (JeepybProjectConfig_init sec0 w_listed)))
       = Some (CBool True)
   \<and> fst (main_create_project env_all_ok sec0 (JeepybProjectConfig_init sec0 w_listed))
   \<and> new_events w_listed (snd (main_create_project env_all_ok sec0 (JeepybProjectConfig_init sec0 w_listed)))
       = [ListProjects]"
proof -
  have h1: "project_name sec0 \<in> set (gerrit_projects w_listed)"
    by (simp add: sec0_def w_listed_def world0_def)
  have h2: "project_cache w_listed (project_name sec0) = None"
    by (simp add: sec0_def w_listed_def world0_def)
  from create_gerrit_project_existing[of sec0 w_listed env_all_ok] h1 h2
  show ?thesis by simp
qed

text \<open>
  C9 as stated fails: with a committer identity that has no e-mail part, \<open>change_user\<close>
  raises \<open>ValueError\<close> right after \<open>git init\<close>, and no push specification is returned.
\<close>

theorem fresh_init_needs_committer_counterexample:
  "co_upstream co_no_email = None
   \<and> co_project co_no_email \<notin> set (gerrit_projects world0)
   \<and> fst (make_local_copy env_all_ok co_no_email world0) = Inl ValueError"
  by (simp add: eval_simps)

end
